theory Spec2Isabelle
  imports Main "HOL-Library.Multiset"
begin

section \<open>Values returned to the caller\<close>

text \<open>
  The service returns plain JavaScript objects built by the data-access client from a
  \<open>select\<close> literal. An object is kept as the list of its keys with their values, so
  that "the result has no \<open>password\<close> key" is a statement about the value itself.
\<close>

datatype jval =
    JUndefined
  | JNull
  | JStr string
  | JNum int
  | JArr "jval list"
  | JObj "(string \<times> jval) list"

fun jkeys :: "jval \<Rightarrow> string list" where
  "jkeys (JObj kvs) = map fst kvs"
| "jkeys _ = []"

text \<open>Property access \<open>obj.k\<close>: a missing property reads as \<open>undefined\<close>.\<close>

fun jfield :: "string \<Rightarrow> jval \<Rightarrow> jval" where
  "jfield k (JObj kvs) = (case map_of kvs k of Some v \<Rightarrow> v | None \<Rightarrow> JUndefined)"
| "jfield k _ = JUndefined"

fun jitems :: "jval \<Rightarrow> jval list" where
  "jitems (JArr xs) = xs"
| "jitems _ = []"

text \<open>Does the key occur anywhere inside the value, at any depth?\<close>

fun mentions :: "string \<Rightarrow> jval \<Rightarrow> bool" where
  "mentions k (JArr xs) = list_ex (mentions k) xs"
| "mentions k (JObj kvs) = list_ex (\<lambda>kv. fst kv = k \<or> mentions k (snd kv)) kvs"
| "mentions k _ = False"

section \<open>The persistent store\<close>

text \<open>
  Modelled from the spec: the store's schema and its client are not part of the service
  file. The rows have the attributes the data model lists and the service selects. The
  many-to-many association \<open>assignedCourses\<close> is kept with the user row as the list of
  associated course ids; modules belong to one course and lessons to one module, so they
  are nested.
\<close>

record lesson =
  l_id :: string
  l_title :: string
  l_duration :: int
  l_order :: int

record module =
  m_id :: string
  m_title :: string
  m_order :: int
  m_lessons :: "lesson list"

record course =
  c_id :: string
  c_title :: string
  c_description :: string
  c_createdAt :: int
  c_modules :: "module list"

record user =
  u_id :: string
  u_name :: string
  u_email :: string
  u_password :: string
  u_role :: string
  u_status :: string
  u_createdAt :: int
  u_assigned :: "string list"

record store =
  users :: "user list"
  courses :: "course list"

text \<open>
  \<open>NotFound\<close> is the service's own \<open>NotFoundException\<close> with its message; the other
  errors are raised by the store's client and pass through the service unchanged:
  a row that is not there, a reference to a course that does not exist, a unique key
  that is taken, a value outside the enumeration of an enumeration column, a key of
  \<open>data\<close> that names no column or holds a value of the wrong kind.
\<close>

datatype error =
    NotFound string
  | RecordNotFound
  | ReferentialIntegrityViolation
  | UniquenessViolation
  | EnumValueRefused
  | ArgumentRefused

text \<open>The enumeration \<open>UserStatus\<close> of \<open>update-user.dto.ts\<close>; its members are strings at run time.\<close>

definition UserStatus :: "string list" where
  "UserStatus = [''ACTIVE'', ''INACTIVE'', ''BANNED'']"

subsection \<open>Columns and \<open>select\<close>\<close>

definition lesson_row :: "lesson \<Rightarrow> (string \<times> jval) list" where
  "lesson_row l =
     [(''id'', JStr (l_id l)), (''title'', JStr (l_title l)),
      (''duration'', JNum (l_duration l)), (''order'', JNum (l_order l))]"

definition module_row :: "module \<Rightarrow> (string \<times> jval) list" where
  "module_row m =
     [(''id'', JStr (m_id m)), (''title'', JStr (m_title m)), (''order'', JNum (m_order m))]"

definition course_row :: "course \<Rightarrow> (string \<times> jval) list" where
  "course_row c =
     [(''id'', JStr (c_id c)), (''title'', JStr (c_title c)),
      (''description'', JStr (c_description c)), (''createdAt'', JNum (c_createdAt c))]"

definition user_row :: "user \<Rightarrow> (string \<times> jval) list" where
  "user_row u =
     [(''id'', JStr (u_id u)), (''name'', JStr (u_name u)), (''email'', JStr (u_email u)),
      (''password'', JStr (u_password u)), (''role'', JStr (u_role u)),
      (''status'', JStr (u_status u)), (''createdAt'', JNum (u_createdAt u))]"

text \<open>\<open>select: {k1: true, k2: true, ...}\<close> on the scalar columns of a row.\<close>

definition pick :: "string list \<Rightarrow> (string \<times> jval) list \<Rightarrow> (string \<times> jval) list" where
  "pick ks row = List.map_filter (\<lambda>k. map_option (Pair k) (map_of row k)) ks"

text \<open>
  Modelled from the spec: the store's ordered traversal, \<open>orderBy: {col: 'asc'}\<close> and
  \<open>orderBy: {col: 'desc'}\<close> on an integer column, as a sort of the rows on that column.
\<close>

datatype dir = Asc | Desc

fun orderBy :: "dir \<Rightarrow> ('a \<Rightarrow> int) \<Rightarrow> 'a list \<Rightarrow> 'a list" where
  "orderBy Asc col rows = sort_key col rows"
| "orderBy Desc col rows = sort_key (\<lambda>r. - col r) rows"

text \<open>The courses associated with a user, in the store's order.\<close>

definition assignedCourses :: "store \<Rightarrow> user \<Rightarrow> course list" where
  "assignedCourses st u = filter (\<lambda>c. c_id c \<in> set (u_assigned u)) (courses st)"

definition course_exists :: "store \<Rightarrow> string \<Rightarrow> bool" where
  "course_exists st cid = list_ex (\<lambda>c. c_id c = cid) (courses st)"

subsection \<open>The \<open>select\<close> literals of the service\<close>

text \<open>\<open>assignedCourses: { select: { id: true, title: true } }\<close>\<close>

definition select_course_brief :: "course \<Rightarrow> jval" where
  "select_course_brief c = JObj (pick [''id'', ''title''] (course_row c))"

text \<open>The projection of \<open>create\<close>, \<open>findAll\<close>, \<open>findOne\<close> and \<open>update\<close>.\<close>

definition select_user :: "store \<Rightarrow> user \<Rightarrow> jval" where
  "select_user st u =
     JObj (pick [''id'', ''name'', ''email'', ''status'', ''createdAt'', ''role''] (user_row u)
           @ [(''assignedCourses'', JArr (map select_course_brief (assignedCourses st u)))])"

text \<open>The projection of \<open>findByEmail\<close>.\<close>

definition select_user_auth :: "store \<Rightarrow> user \<Rightarrow> jval" where
  "select_user_auth st u =
     JObj (pick [''id'', ''name'', ''email'', ''password'', ''status'', ''role''] (user_row u)
           @ [(''assignedCourses'', JArr (map select_course_brief (assignedCourses st u)))])"

text \<open>The projection of \<open>updateStatus\<close> and \<open>remove\<close>.\<close>

definition select_user_flat :: "store \<Rightarrow> user \<Rightarrow> jval" where
  "select_user_flat st u =
     JObj (pick [''id'', ''name'', ''email'', ''status'', ''createdAt'', ''role''] (user_row u))"

text \<open>The nested projection of \<open>getUserCourses\<close>.\<close>

definition select_lesson :: "lesson \<Rightarrow> jval" where
  "select_lesson l = JObj (pick [''id'', ''title'', ''duration'', ''order''] (lesson_row l))"

definition select_module :: "module \<Rightarrow> jval" where
  "select_module m =
     JObj (pick [''id'', ''title'', ''order''] (module_row m)
           @ [(''lessons'', JArr (map select_lesson (orderBy Asc l_order (m_lessons m))))])"

definition select_course_full :: "course \<Rightarrow> jval" where
  "select_course_full c =
     JObj (pick [''id'', ''title'', ''description''] (course_row c)
           @ [(''modules'', JArr (map select_module (orderBy Asc m_order (c_modules c))))])"

definition select_user_courses :: "store \<Rightarrow> user \<Rightarrow> jval" where
  "select_user_courses st u =
     JObj (pick [''id''] (user_row u)
           @ [(''assignedCourses'',
               JArr (map select_course_full (orderBy Desc c_createdAt (assignedCourses st u))))])"

subsection \<open>Operations of the data-access client\<close>

definition find_user :: "store \<Rightarrow> string \<Rightarrow> user option" where
  "find_user st i = find (\<lambda>u. u_id u = i) (users st)"

definition find_user_by_email :: "store \<Rightarrow> string \<Rightarrow> user option" where
  "find_user_by_email st e = find (\<lambda>u. u_email u = e) (users st)"

text \<open>
  Modelled from the spec: unique-key lookup by id and by email.
  \<open>prisma.user.findUnique({ where })\<close> returns the row or \<open>null\<close>, and with a \<open>select\<close>
  the selected object or \<open>null\<close>.
\<close>

datatype user_where = WhereId string | WhereEmail string

fun find_unique :: "store \<Rightarrow> user_where \<Rightarrow> user option" where
  "find_unique st (WhereId i) = find_user st i"
| "find_unique st (WhereEmail e) = find_user_by_email st e"

definition prisma_user_findUnique ::
  "store \<Rightarrow> user_where \<Rightarrow> (store \<Rightarrow> user \<Rightarrow> jval) \<Rightarrow> jval option" where
  "prisma_user_findUnique st w sel = map_option (sel st) (find_unique st w)"

text \<open>
  Modelled from the spec: \<open>prisma.user.findMany({ select })\<close>, all users in the store's
  order.
\<close>

definition prisma_user_findMany :: "store \<Rightarrow> (store \<Rightarrow> user \<Rightarrow> jval) \<Rightarrow> jval" where
  "prisma_user_findMany st sel = JArr (map (sel st) (users st))"

text \<open>
  The values the store supplies for a new row: the generated id, the creation time and
  the column defaults of \<open>status\<close> and \<open>role\<close>.
\<close>

record generated =
  g_id :: string
  g_createdAt :: int
  g_status :: string
  g_role :: string

record user_create_data =
  cd_name :: string
  cd_email :: string
  cd_password :: string
  cd_role :: "string option"
  cd_connect :: "string list option"

text \<open>
  Modelled from the spec: insert with uniqueness-violation signalling and the
  relationship \<open>connect\<close>. For \<open>prisma.user.create({ data, select })\<close> the email and the
  id are unique keys, and \<open>connect\<close> needs every referenced course to exist. A failed
  call changes nothing.
\<close>

definition prisma_user_create ::
  "store \<Rightarrow> generated \<Rightarrow> user_create_data \<Rightarrow> (store \<Rightarrow> user \<Rightarrow> jval) \<Rightarrow> (error + jval) \<times> store" where
  "prisma_user_create st g d sel =
     (if find_user st (g_id g) \<noteq> None \<or> find_user_by_email st (cd_email d) \<noteq> None
      then (Inl UniquenessViolation, st)
      else if \<not> list_all (course_exists st) (case cd_connect d of Some ids \<Rightarrow> ids | None \<Rightarrow> [])
      then (Inl ReferentialIntegrityViolation, st)
      else
        let u = \<lparr>u_id = g_id g, u_name = cd_name d, u_email = cd_email d,
                 u_password = cd_password d,
                 u_role = (case cd_role d of Some r \<Rightarrow> r | None \<Rightarrow> g_role g),
                 u_status = g_status g, u_createdAt = g_createdAt g,
                 u_assigned = (case cd_connect d of Some ids \<Rightarrow> remdups ids | None \<Rightarrow> [])\<rparr>;
            st' = st\<lparr>users := users st @ [u]\<rparr>
        in (Inr (sel st' u), st'))"

record user_update_data =
  ud_name :: "string option"
  ud_email :: "string option"
  ud_role :: "string option"
  ud_status :: "string option"
  ud_password :: "string option"
  ud_set :: "string list option"

definition apply_update :: "user_update_data \<Rightarrow> user \<Rightarrow> user" where
  "apply_update d u =
     u\<lparr>u_name := (case ud_name d of Some n \<Rightarrow> n | None \<Rightarrow> u_name u),
       u_email := (case ud_email d of Some e \<Rightarrow> e | None \<Rightarrow> u_email u),
       u_role := (case ud_role d of Some r \<Rightarrow> r | None \<Rightarrow> u_role u),
       u_status := (case ud_status d of Some s \<Rightarrow> s | None \<Rightarrow> u_status u),
       u_password := (case ud_password d of Some p \<Rightarrow> p | None \<Rightarrow> u_password u),
       u_assigned := (case ud_set d of Some ids \<Rightarrow> remdups ids | None \<Rightarrow> u_assigned u)\<rparr>"

text \<open>
  Besides the columns of \<open>user_update_data\<close>, the \<open>data\<close> of an update can carry further
  keys. Of the scalar columns of the user row, \<open>id\<close> and \<open>createdAt\<close> are the two that
  \<open>user_update_data\<close> does not list; a string under \<open>id\<close> and a time under
  \<open>createdAt\<close> (times are numbers here) are written to the row.
\<close>

fun jstr :: "jval \<Rightarrow> string option" where
  "jstr (JStr s) = Some s"
| "jstr _ = None"

fun jnum :: "jval \<Rightarrow> int option" where
  "jnum (JNum n) = Some n"
| "jnum _ = None"

definition rest_id :: "(string \<times> jval) list \<Rightarrow> string option" where
  "rest_id rest = (case map_of rest ''id'' of Some v \<Rightarrow> jstr v | None \<Rightarrow> None)"

definition rest_createdAt :: "(string \<times> jval) list \<Rightarrow> int option" where
  "rest_createdAt rest = (case map_of rest ''createdAt'' of Some v \<Rightarrow> jnum v | None \<Rightarrow> None)"

definition rest_accepted :: "(string \<times> jval) list \<Rightarrow> bool" where
  "rest_accepted rest =
     list_all (\<lambda>kv. (fst kv = ''id'' \<and> jstr (snd kv) \<noteq> None)
                   \<or> (fst kv = ''createdAt'' \<and> jnum (snd kv) \<noteq> None)) rest"

definition apply_rest :: "(string \<times> jval) list \<Rightarrow> user \<Rightarrow> user" where
  "apply_rest rest u =
     u\<lparr>u_id := (case rest_id rest of Some k \<Rightarrow> k | None \<Rightarrow> u_id u),
       u_createdAt := (case rest_createdAt rest of Some t \<Rightarrow> t | None \<Rightarrow> u_createdAt u)\<rparr>"

text \<open>
  Modelled from the spec: partial-field update and the relationship \<open>set\<close>, for
  \<open>prisma.user.update({ where: { id }, data, select })\<close>, where \<open>data\<close> is given as the
  columns of \<open>user_update_data\<close> and the list of its further keys. The service imports
  the type of the \<open>status\<close> column from the store's client as the enumeration
  \<open>UserStatus\<close>, so the client refuses any other value before it touches the row (the
  \<open>role\<close> column is no enumeration of the client's and takes any string), and it
  refuses a further key that names no scalar column or holds a value of the wrong kind;
  the email and the id are unique keys; \<open>set\<close> needs every referenced course to exist
  and replaces the associations. A field that is \<open>undefined\<close> in \<open>data\<close> is left as it
  is. A failed call changes nothing.
\<close>

definition prisma_user_update_rest ::
  "store \<Rightarrow> string \<Rightarrow> user_update_data \<Rightarrow> (string \<times> jval) list \<Rightarrow> (store \<Rightarrow> user \<Rightarrow> jval)
     \<Rightarrow> (error + jval) \<times> store" where
  "prisma_user_update_rest st i d rest sel =
     (if (case ud_status d of Some s \<Rightarrow> s \<notin> set UserStatus | None \<Rightarrow> False)
      then (Inl EnumValueRefused, st)
      else if \<not> rest_accepted rest
      then (Inl ArgumentRefused, st)
      else
        (case find_user st i of
           None \<Rightarrow> (Inl RecordNotFound, st)
         | Some u \<Rightarrow>
             if list_ex (\<lambda>x. u_id x \<noteq> i \<and> (Some (u_email x) = ud_email d
                                            \<or> Some (u_id x) = rest_id rest)) (users st)
             then (Inl UniquenessViolation, st)
             else if \<not> list_all (course_exists st) (case ud_set d of Some ids \<Rightarrow> ids | None \<Rightarrow> [])
             then (Inl ReferentialIntegrityViolation, st)
             else
               let st' = st\<lparr>users := map (\<lambda>x. if u_id x = i then apply_rest rest (apply_update d x)
                                                 else x) (users st)\<rparr>
               in (Inr (sel st' (apply_rest rest (apply_update d u))), st')))"

text \<open>The update whose \<open>data\<close> has no further keys.\<close>

definition prisma_user_update ::
  "store \<Rightarrow> string \<Rightarrow> user_update_data \<Rightarrow> (store \<Rightarrow> user \<Rightarrow> jval) \<Rightarrow> (error + jval) \<times> store" where
  "prisma_user_update st i d sel = prisma_user_update_rest st i d [] sel"

text \<open>
  Modelled from the spec: delete, for \<open>prisma.user.delete({ where: { id }, select })\<close>.
  The row goes, its association rows with it; the result is the deleted row's projection.
\<close>

definition prisma_user_delete ::
  "store \<Rightarrow> string \<Rightarrow> (store \<Rightarrow> user \<Rightarrow> jval) \<Rightarrow> (error + jval) \<times> store" where
  "prisma_user_delete st i sel =
     (case find_user st i of
        None \<Rightarrow> (Inl RecordNotFound, st)
      | Some u \<Rightarrow> (Inr (sel st u), st\<lparr>users := filter (\<lambda>x. u_id x \<noteq> i) (users st)\<rparr>))"

section \<open>The users service\<close>

text \<open>
  \<open>bcrypt.hash(plaintext, rounds)\<close> is a library call, the spec's credential hasher; the
  service is modelled for any such function, passed as the first argument of the two
  operations that hash.
\<close>

type_synonym hasher = "string \<Rightarrow> nat \<Rightarrow> string"

record CreateUserDto =
  cr_name :: string
  cr_email :: string
  cr_password :: string
  cr_role :: "string option"
  cr_assignedCourseIds :: "string list option"

record UpdateUserDto =
  up_name :: "string option"
  up_email :: "string option"
  up_password :: "string option"
  up_role :: "string option"
  up_status :: "string option"
  up_assignedCourseIds :: "string list option"

text \<open>JavaScript truthiness of a string: only the empty string is falsy.\<close>

definition truthy :: "string \<Rightarrow> bool" where
  "truthy s = (s \<noteq> [])"

definition not_found_message :: "string \<Rightarrow> string" where
  "not_found_message i = ''User with ID '' @ i @ '' not found''"

definition create :: "hasher \<Rightarrow> generated \<Rightarrow> store \<Rightarrow> CreateUserDto \<Rightarrow> (error + jval) \<times> store" where
  "create h g st dto =
     (let hashedPassword = h (cr_password dto) 10 in
      prisma_user_create st g
        \<lparr>cd_name = cr_name dto, cd_email = cr_email dto,
         cd_password = hashedPassword,
         cd_role = cr_role dto,
         cd_connect = (case cr_assignedCourseIds dto of
                         Some ids \<Rightarrow> if length ids \<noteq> 0 then Some ids else None
                       | None \<Rightarrow> None)\<rparr>
        select_user)"

definition findAll :: "store \<Rightarrow> (error + jval) \<times> store" where
  "findAll st = (Inr (prisma_user_findMany st select_user), st)"

definition findOne :: "store \<Rightarrow> string \<Rightarrow> (error + jval) \<times> store" where
  "findOne st i =
     (case prisma_user_findUnique st (WhereId i) select_user of
        None \<Rightarrow> (Inl (NotFound (not_found_message i)), st)
      | Some user \<Rightarrow> (Inr user, st))"

text \<open>\<open>findByEmail\<close> returns what the client returns: the object, or \<open>null\<close>.\<close>

definition findByEmail :: "store \<Rightarrow> string \<Rightarrow> (error + jval) \<times> store" where
  "findByEmail st e =
     (case prisma_user_findUnique st (WhereEmail e) select_user_auth of
        None \<Rightarrow> (Inr JNull, st)
      | Some user \<Rightarrow> (Inr user, st))"

text \<open>
  \<open>update\<close> destructures \<open>password\<close>, \<open>assignedCourseIds\<close> and \<open>status\<close> out of its input
  and spreads every other key, \<open>...rest\<close>, into the store's \<open>data\<close>. \<open>UpdateUserDto\<close>
  declares three such keys, \<open>name\<close>, \<open>email\<close> and \<open>role\<close>; the object that arrives at run
  time may carry more. \<open>update_object\<close> is the method on the declared fields together
  with the list of the input's other keys.
\<close>

definition update_object ::
  "hasher \<Rightarrow> store \<Rightarrow> string \<Rightarrow> UpdateUserDto \<Rightarrow> (string \<times> jval) list \<Rightarrow> (error + jval) \<times> store" where
  "update_object h st i dto other =
     (case find_unique st (WhereId i) of
        None \<Rightarrow> (Inl (NotFound (not_found_message i)), st)
      | Some exists \<Rightarrow>
          let hashedPassword =
                (case up_password dto of
                   Some newPassword \<Rightarrow> if truthy newPassword then Some (h newPassword 10) else None
                 | None \<Rightarrow> None)
          in prisma_user_update_rest st i
               \<lparr>ud_name = up_name dto, ud_email = up_email dto, ud_role = up_role dto,
                ud_status = (case up_status dto of
                               Some status \<Rightarrow> if truthy status then Some status else None
                             | None \<Rightarrow> None),
                ud_password = (case hashedPassword of
                                 Some hp \<Rightarrow> if truthy hp then Some hp else None
                               | None \<Rightarrow> None),
                ud_set = up_assignedCourseIds dto\<rparr>
               other
               select_user)"

text \<open>\<open>update\<close> on an input that has the keys \<open>UpdateUserDto\<close> declares and no others.\<close>

definition update :: "hasher \<Rightarrow> store \<Rightarrow> string \<Rightarrow> UpdateUserDto \<Rightarrow> (error + jval) \<times> store" where
  "update h st i dto = update_object h st i dto []"

definition updateStatus :: "store \<Rightarrow> string \<Rightarrow> string \<Rightarrow> (error + jval) \<times> store" where
  "updateStatus st i status =
     (case find_unique st (WhereId i) of
        None \<Rightarrow> (Inl (NotFound (not_found_message i)), st)
      | Some exists \<Rightarrow>
          prisma_user_update st i
            \<lparr>ud_name = None, ud_email = None, ud_role = None, ud_status = Some status,
             ud_password = None, ud_set = None\<rparr>
            select_user_flat)"

definition getUserCourses :: "store \<Rightarrow> string \<Rightarrow> (error + jval) \<times> store" where
  "getUserCourses st userId =
     (case prisma_user_findUnique st (WhereId userId) select_user_courses of
        None \<Rightarrow> (Inl (NotFound (not_found_message userId)), st)
      | Some userWithCourses \<Rightarrow> (Inr (jfield ''assignedCourses'' userWithCourses), st))"

definition remove :: "store \<Rightarrow> string \<Rightarrow> (error + jval) \<times> store" where
  "remove st i =
     (case find_unique st (WhereId i) of
        None \<Rightarrow> (Inl (NotFound (not_found_message i)), st)
      | Some exists \<Rightarrow> prisma_user_delete st i select_user_flat)"

section \<open>A concrete store\<close>

text \<open>Two courses, the older one with unordered modules and lessons, and two users.\<close>

definition ex_hash :: hasher where
  "ex_hash p n = ''$2a$10$'' @ rev p"

definition ex_course1 :: course where
  "ex_course1 =
     \<lparr>c_id = ''c1'', c_title = ''Algebra'', c_description = ''Groups'', c_createdAt = 100,
      c_modules =
        [\<lparr>m_id = ''m2'', m_title = ''Rings'', m_order = 2,
          m_lessons = [\<lparr>l_id = ''l3'', l_title = ''Ideals'', l_duration = 30, l_order = 1\<rparr>]\<rparr>,
         \<lparr>m_id = ''m1'', m_title = ''Groups'', m_order = 1,
          m_lessons = [\<lparr>l_id = ''l2'', l_title = ''Cosets'', l_duration = 20, l_order = 2\<rparr>,
                       \<lparr>l_id = ''l1'', l_title = ''Axioms'', l_duration = 10, l_order = 1\<rparr>]\<rparr>]\<rparr>"

definition ex_course2 :: course where
  "ex_course2 =
     \<lparr>c_id = ''c2'', c_title = ''Logic'', c_description = ''Proofs'', c_createdAt = 200,
      c_modules = []\<rparr>"

definition ex_ann :: user where
  "ex_ann =
     \<lparr>u_id = ''u1'', u_name = ''Ann'', u_email = ''ann@x.com'', u_password = ''$2a$10$321wp'',
      u_role = ''STUDENT'', u_status = ''ACTIVE'', u_createdAt = 500,
      u_assigned = [''c1'', ''c2'']\<rparr>"

definition ex_bob :: user where
  "ex_bob =
     \<lparr>u_id = ''u2'', u_name = ''Bob'', u_email = ''bob@x.com'', u_password = ''$2a$10$terces'',
      u_role = ''ADMIN'', u_status = ''INACTIVE'', u_createdAt = 600,
      u_assigned = []\<rparr>"

definition ex_store :: store where
  "ex_store = \<lparr>users = [ex_ann, ex_bob], courses = [ex_course1, ex_course2]\<rparr>"

definition ex_generated :: generated where
  "ex_generated = \<lparr>g_id = ''u3'', g_createdAt = 700, g_status = ''ACTIVE'', g_role = ''STUDENT''\<rparr>"

definition empty_dto :: UpdateUserDto where
  "empty_dto =
     \<lparr>up_name = None, up_email = None, up_password = None, up_role = None, up_status = None,
      up_assignedCourseIds = None\<rparr>"


definition ex_create_dto :: CreateUserDto where
  "ex_create_dto =
     \<lparr>cr_name = ''Cy'', cr_email = ''cy@x.com'', cr_password = ''pw123'', cr_role = None,
      cr_assignedCourseIds = Some [''c1'']\<rparr>"

section \<open>Observations on stores and results\<close>


text \<open>Reading the integer \<open>order\<close> property of each element of a returned array.\<close>

fun jint :: "jval \<Rightarrow> int" where
  "jint (JNum n) = n"
| "jint _ = 0"

definition orders_of :: "jval \<Rightarrow> int list" where
  "orders_of arr = map (\<lambda>j. jint (jfield ''order'' j)) (jitems arr)"

text \<open>An operation exposes a key when it succeeds and the key occurs inside its result.\<close>

definition exposes :: "string \<Rightarrow> (error + jval) \<times> store \<Rightarrow> bool" where
  "exposes k r = (case fst r of Inr j \<Rightarrow> mentions k j | Inl e \<Rightarrow> False)"

section \<open>Facts about the store and the projections\<close>

lemmas ex_defs = ex_store_def ex_ann_def ex_bob_def ex_course1_def ex_course2_def

lemma rest_nil [simp]:
  "rest_id [] = None" "rest_createdAt [] = None" "rest_accepted []" "apply_rest [] u = u"
  by (simp_all add: rest_id_def rest_createdAt_def rest_accepted_def apply_rest_def)

lemma prisma_user_update_unfold:
  "prisma_user_update st i d sel =
     (if (case ud_status d of Some s \<Rightarrow> s \<notin> set UserStatus | None \<Rightarrow> False)
      then (Inl EnumValueRefused, st)
      else
        (case find_user st i of
           None \<Rightarrow> (Inl RecordNotFound, st)
         | Some u \<Rightarrow>
             if list_ex (\<lambda>x. u_id x \<noteq> i \<and> Some (u_email x) = ud_email d) (users st)
             then (Inl UniquenessViolation, st)
             else if \<not> list_all (course_exists st) (case ud_set d of Some ids \<Rightarrow> ids | None \<Rightarrow> [])
             then (Inl ReferentialIntegrityViolation, st)
             else
               let st' = st\<lparr>users := map (\<lambda>x. if u_id x = i then apply_update d x else x) (users st)\<rparr>
               in (Inr (sel st' (apply_update d u)), st')))"
proof (cases "find_user st i")
  case None
  then show ?thesis
    by (simp add: prisma_user_update_def prisma_user_update_rest_def)
next
  case (Some u)
  have same: "(\<lambda>x. if u_id x = i then apply_rest [] (apply_update d x) else x)
            = (\<lambda>x. if u_id x = i then apply_update d x else x)"
    by (rule ext) simp
  show ?thesis
    by (simp add: prisma_user_update_def prisma_user_update_rest_def Some same)
qed

lemma update_unfold:
  "update h st i dto =
     (case find_unique st (WhereId i) of
        None \<Rightarrow> (Inl (NotFound (not_found_message i)), st)
      | Some exists \<Rightarrow>
          let hashedPassword =
                (case up_password dto of
                   Some newPassword \<Rightarrow> if truthy newPassword then Some (h newPassword 10) else None
                 | None \<Rightarrow> None)
          in prisma_user_update st i
               \<lparr>ud_name = up_name dto, ud_email = up_email dto, ud_role = up_role dto,
                ud_status = (case up_status dto of
                               Some status \<Rightarrow> if truthy status then Some status else None
                             | None \<Rightarrow> None),
                ud_password = (case hashedPassword of
                                 Some hp \<Rightarrow> if truthy hp then Some hp else None
                               | None \<Rightarrow> None),
                ud_set = up_assignedCourseIds dto\<rparr>
               select_user)"
  unfolding update_def update_object_def prisma_user_update_def
  by (rule refl)

lemma find_user_None_iff: "find_user st i = None \<longleftrightarrow> i \<notin> u_id ` set (users st)"
  by (auto simp: find_user_def find_None_iff)

lemma find_user_by_email_None_iff:
  "find_user_by_email st e = None \<longleftrightarrow> e \<notin> u_email ` set (users st)"
  by (auto simp: find_user_by_email_def find_None_iff)

lemma find_user_SomeD: "find_user st i = Some u \<Longrightarrow> u_id u = i \<and> u \<in> set (users st)"
  by (auto simp: find_user_def find_Some_iff)

lemma apply_update_id [simp]: "u_id (apply_update d x) = u_id x"
  by (simp add: apply_update_def)

lemma apply_update_createdAt [simp]: "u_createdAt (apply_update d x) = u_createdAt x"
  by (simp add: apply_update_def)

lemma find_after_rewrite:
  assumes "\<And>x. u_id (f x) = u_id x"
  shows "find (\<lambda>u. u_id u = j) (map (\<lambda>x. if u_id x = i then f x else x) us)
         = map_option (\<lambda>x. if u_id x = i then f x else x) (find (\<lambda>u. u_id u = j) us)"
  using assms by (induction us) auto

lemma find_user_after_update:
  "find_user (st\<lparr>users := map (\<lambda>x. if u_id x = i then apply_update d x else x) (users st)\<rparr>) j
   = map_option (\<lambda>x. if u_id x = i then apply_update d x else x) (find_user st j)"
  by (simp add: find_user_def find_after_rewrite)

lemma pick_user_public:
  "pick [''id'', ''name'', ''email'', ''status'', ''createdAt'', ''role''] (user_row u)
   = [(''id'', JStr (u_id u)), (''name'', JStr (u_name u)), (''email'', JStr (u_email u)),
      (''status'', JStr (u_status u)), (''createdAt'', JNum (u_createdAt u)),
      (''role'', JStr (u_role u))]"
  by (simp add: pick_def user_row_def List.map_filter_def)

lemma pick_user_auth:
  "pick [''id'', ''name'', ''email'', ''password'', ''status'', ''role''] (user_row u)
   = [(''id'', JStr (u_id u)), (''name'', JStr (u_name u)), (''email'', JStr (u_email u)),
      (''password'', JStr (u_password u)), (''status'', JStr (u_status u)),
      (''role'', JStr (u_role u))]"
  by (simp add: pick_def user_row_def List.map_filter_def)

lemma select_course_brief_eq:
  "select_course_brief c = JObj [(''id'', JStr (c_id c)), (''title'', JStr (c_title c))]"
  by (simp add: select_course_brief_def pick_def course_row_def List.map_filter_def)

lemma select_lesson_eq:
  "select_lesson l = JObj [(''id'', JStr (l_id l)), (''title'', JStr (l_title l)),
      (''duration'', JNum (l_duration l)), (''order'', JNum (l_order l))]"
  by (simp add: select_lesson_def pick_def lesson_row_def List.map_filter_def)

lemma select_module_eq:
  "select_module m = JObj [(''id'', JStr (m_id m)), (''title'', JStr (m_title m)),
      (''order'', JNum (m_order m)),
      (''lessons'', JArr (map select_lesson (orderBy Asc l_order (m_lessons m))))]"
  by (simp add: select_module_def pick_def module_row_def List.map_filter_def)

lemma select_course_full_eq:
  "select_course_full c = JObj [(''id'', JStr (c_id c)), (''title'', JStr (c_title c)),
      (''description'', JStr (c_description c)),
      (''modules'', JArr (map select_module (orderBy Asc m_order (c_modules c))))]"
  by (simp add: select_course_full_def pick_def course_row_def List.map_filter_def)

lemma select_user_eq:
  "select_user st u = JObj [(''id'', JStr (u_id u)), (''name'', JStr (u_name u)),
      (''email'', JStr (u_email u)), (''status'', JStr (u_status u)),
      (''createdAt'', JNum (u_createdAt u)), (''role'', JStr (u_role u)),
      (''assignedCourses'', JArr (map select_course_brief (assignedCourses st u)))]"
  by (simp add: select_user_def pick_user_public)

lemma select_user_flat_eq:
  "select_user_flat st u = JObj [(''id'', JStr (u_id u)), (''name'', JStr (u_name u)),
      (''email'', JStr (u_email u)), (''status'', JStr (u_status u)),
      (''createdAt'', JNum (u_createdAt u)), (''role'', JStr (u_role u))]"
  by (simp add: select_user_flat_def pick_user_public)

lemma select_user_auth_eq:
  "select_user_auth st u = JObj [(''id'', JStr (u_id u)), (''name'', JStr (u_name u)),
      (''email'', JStr (u_email u)), (''password'', JStr (u_password u)),
      (''status'', JStr (u_status u)), (''role'', JStr (u_role u)),
      (''assignedCourses'', JArr (map select_course_brief (assignedCourses st u)))]"
  by (simp add: select_user_auth_def pick_user_auth)

lemma user_courses_field:
  "jfield ''assignedCourses'' (select_user_courses st u)
   = JArr (map select_course_full (orderBy Desc c_createdAt (assignedCourses st u)))"
  by (simp add: select_user_courses_def pick_def user_row_def List.map_filter_def)

section \<open>Operations on an id that is not in the store\<close>

text \<open>
  C5. When no user row has the given id, each of \<open>findOne\<close>, \<open>update\<close>, \<open>updateStatus\<close>,
  \<open>getUserCourses\<close> and \<open>remove\<close> raises \<open>NotFound\<close> with the service's message, and the
  store it leaves behind is the store it was given; so does \<open>update\<close> on an input
  object with further keys.
\<close>

theorem missing_id_raises_NotFound:
  assumes "i \<notin> u_id ` set (users st)"
  shows "findOne st i = (Inl (NotFound (not_found_message i)), st)
       \<and> update h st i dto = (Inl (NotFound (not_found_message i)), st)
       \<and> updateStatus st i status = (Inl (NotFound (not_found_message i)), st)
       \<and> getUserCourses st i = (Inl (NotFound (not_found_message i)), st)
       \<and> remove st i = (Inl (NotFound (not_found_message i)), st)
       \<and> update_object h st i dto other = (Inl (NotFound (not_found_message i)), st)"
proof -
  from assms have none: "find_user st i = None"
    by (simp add: find_user_None_iff)
  show ?thesis
    by (simp add: none findOne_def update_unfold updateStatus_def getUserCourses_def remove_def
        prisma_user_findUnique_def update_object_def)
qed

theorem missing_id_raises_NotFound_witness:
  "''u9'' \<notin> u_id ` set (users ex_store)
   \<and> findOne ex_store ''u9'' = (Inl (NotFound ''User with ID u9 not found''), ex_store)
   \<and> update ex_hash ex_store ''u9'' empty_dto = (Inl (NotFound ''User with ID u9 not found''), ex_store)
   \<and> updateStatus ex_store ''u9'' ''BANNED'' = (Inl (NotFound ''User with ID u9 not found''), ex_store)
   \<and> getUserCourses ex_store ''u9'' = (Inl (NotFound ''User with ID u9 not found''), ex_store)
   \<and> remove ex_store ''u9'' = (Inl (NotFound ''User with ID u9 not found''), ex_store)"
proof -
  have absent: "''u9'' \<notin> u_id ` set (users ex_store)"
    by (simp add: ex_defs)
  show ?thesis
    using absent missing_id_raises_NotFound [OF absent, of ex_hash empty_dto "''BANNED''"]
    by (simp add: not_found_message_def)
qed

section \<open>Lookup by email\<close>

text \<open>
  C9. When no user row has the given email, \<open>findByEmail\<close> returns \<open>null\<close> and raises
  nothing, whereas the two lookups by id, \<open>findOne\<close> and \<open>getUserCourses\<close>, raise
  \<open>NotFound\<close> when no row has the given id.
\<close>

theorem findByEmail_missing_returns_null:
  "(e \<notin> u_email ` set (users st) \<longrightarrow> findByEmail st e = (Inr JNull, st))
   \<and> (i \<notin> u_id ` set (users st) \<longrightarrow>
        fst (findOne st i) = Inl (NotFound (not_found_message i))
        \<and> fst (getUserCourses st i) = Inl (NotFound (not_found_message i)))"
proof (intro conjI impI)
  assume "e \<notin> u_email ` set (users st)"
  then have "find_user_by_email st e = None"
    by (simp add: find_user_by_email_None_iff)
  then show "findByEmail st e = (Inr JNull, st)"
    by (simp add: findByEmail_def prisma_user_findUnique_def)
next
  assume "i \<notin> u_id ` set (users st)"
  then have none: "find_user st i = None"
    by (simp add: find_user_None_iff)
  show "fst (findOne st i) = Inl (NotFound (not_found_message i))"
    by (simp add: none findOne_def prisma_user_findUnique_def)
  show "fst (getUserCourses st i) = Inl (NotFound (not_found_message i))"
    by (simp add: none getUserCourses_def prisma_user_findUnique_def)
qed

theorem findByEmail_missing_returns_null_witness:
  "''zed@x.com'' \<notin> u_email ` set (users ex_store)
   \<and> findByEmail ex_store ''zed@x.com'' = (Inr JNull, ex_store)
   \<and> ''u9'' \<notin> u_id ` set (users ex_store)
   \<and> fst (findOne ex_store ''u9'') = Inl (NotFound ''User with ID u9 not found'')
   \<and> fst (getUserCourses ex_store ''u9'') = Inl (NotFound ''User with ID u9 not found'')"
proof -
  have e: "''zed@x.com'' \<notin> u_email ` set (users ex_store)"
    and i: "''u9'' \<notin> u_id ` set (users ex_store)"
    by (simp_all add: ex_defs)
  show ?thesis
    using e i findByEmail_missing_returns_null [of "''zed@x.com''" ex_store "''u9''"]
    by (simp add: not_found_message_def)
qed

section \<open>Falsy strings in \<open>update\<close>\<close>

lemma update_on_existing:
  assumes "find_user st i = Some u"
  shows "update h st i dto =
     prisma_user_update st i
       \<lparr>ud_name = up_name dto, ud_email = up_email dto, ud_role = up_role dto,
        ud_status = (case up_status dto of
                       Some status \<Rightarrow> if truthy status then Some status else None
                     | None \<Rightarrow> None),
        ud_password = (case up_password dto of
                         Some p \<Rightarrow> if truthy p \<and> truthy (h p 10) then Some (h p 10) else None
                       | None \<Rightarrow> None),
        ud_set = up_assignedCourseIds dto\<rparr>
       select_user"
  using assms by (simp add: update_unfold Let_def split: option.splits)

lemma prisma_user_update_store:
  "snd (prisma_user_update st i d sel) = st
   \<or> snd (prisma_user_update st i d sel)
      = st\<lparr>users := map (\<lambda>x. if u_id x = i then apply_update d x else x) (users st)\<rparr>"
  by (simp add: prisma_user_update_unfold Let_def split: option.splits)

lemma prisma_user_update_row:
  assumes "find_user st i = Some u"
  shows "find_user (snd (prisma_user_update st i d sel)) i = Some u
       \<or> find_user (snd (prisma_user_update st i d sel)) i = Some (apply_update d u)"
proof -
  from assms have "u_id u = i"
    by (simp add: find_user_SomeD)
  then show ?thesis
    using prisma_user_update_store [of st i d sel] assms
    by (auto simp: find_user_after_update)
qed

lemma row_keeps_password:
  assumes "find_user st i = Some u" and "ud_password d = None"
  shows "map_option u_password (find_user (snd (prisma_user_update st i d sel)) i)
         = Some (u_password u)"
  using prisma_user_update_row [OF assms(1), of d sel] assms(2)
  by (auto simp: apply_update_def)

lemma row_keeps_status:
  assumes "find_user st i = Some u" and "ud_status d = None"
  shows "map_option u_status (find_user (snd (prisma_user_update st i d sel)) i)
         = Some (u_status u)"
  using prisma_user_update_row [OF assms(1), of d sel] assms(2)
  by (auto simp: apply_update_def)

lemma update_object_on_existing:
  assumes "find_user st i = Some u"
  shows "update_object h st i dto other =
     prisma_user_update_rest st i
       \<lparr>ud_name = up_name dto, ud_email = up_email dto, ud_role = up_role dto,
        ud_status = (case up_status dto of
                       Some status \<Rightarrow> if truthy status then Some status else None
                     | None \<Rightarrow> None),
        ud_password = (case up_password dto of
                         Some p \<Rightarrow> if truthy p \<and> truthy (h p 10) then Some (h p 10) else None
                       | None \<Rightarrow> None),
        ud_set = up_assignedCourseIds dto\<rparr>
       other select_user"
  using assms by (simp add: update_object_def Let_def split: option.splits)

lemma prisma_user_update_rest_store:
  "snd (prisma_user_update_rest st i d rest sel) = st
   \<or> snd (prisma_user_update_rest st i d rest sel)
      = st\<lparr>users := map (\<lambda>x. if u_id x = i then apply_rest rest (apply_update d x) else x)
                            (users st)\<rparr>"
  by (simp add: prisma_user_update_rest_def Let_def split: option.splits)

lemma password_column_kept:
  assumes "ud_password d = None"
  shows "map u_password (users (snd (prisma_user_update_rest st i d rest sel)))
         = map u_password (users st)"
  using prisma_user_update_rest_store [of st i d rest sel] assms
  by (auto simp: apply_rest_def apply_update_def)

lemma status_column_kept:
  assumes "ud_status d = None"
  shows "map u_status (users (snd (prisma_user_update_rest st i d rest sel)))
         = map u_status (users st)"
  using prisma_user_update_rest_store [of st i d rest sel] assms
  by (auto simp: apply_rest_def apply_update_def)

text \<open>
  C10. For an existing user, \<open>update\<close> with \<open>password\<close> present as the empty string never
  calls the hash function on it (the outcome is the same for every hash function) and
  the row keeps its stored hash; an empty \<open>status\<close> likewise leaves the stored status.
  The same holds for an input object with further keys: the outcome does not depend on
  the hash function, and no row's stored hash, respectively status, changes.
\<close>

theorem update_empty_password_keeps_hash:
  assumes "find_user st i = Some u"
  shows "(up_password dto = Some [] \<longrightarrow>
            update h st i dto = update h' st i dto
            \<and> update h st i dto = update h st i (dto\<lparr>up_password := None\<rparr>)
            \<and> map_option u_password (find_user (snd (update h st i dto)) i) = Some (u_password u))
       \<and> (up_status dto = Some [] \<longrightarrow>
            update h st i dto = update h st i (dto\<lparr>up_status := None\<rparr>)
            \<and> map_option u_status (find_user (snd (update h st i dto)) i) = Some (u_status u))
       \<and> (up_password dto = Some [] \<longrightarrow>
            update_object h st i dto other = update_object h' st i dto other
            \<and> map u_password (users (snd (update_object h st i dto other)))
              = map u_password (users st))
       \<and> (up_status dto = Some [] \<longrightarrow>
            map u_status (users (snd (update_object h st i dto other)))
            = map u_status (users st))"
proof (intro conjI impI)
  assume pw: "up_password dto = Some []"
  show "update_object h st i dto other = update_object h' st i dto other"
    by (simp add: update_object_on_existing [OF assms] pw truthy_def)
  show "map u_password (users (snd (update_object h st i dto other)))
        = map u_password (users st)"
    unfolding update_object_on_existing [OF assms]
    by (rule password_column_kept) (simp add: pw truthy_def)
next
  assume s: "up_status dto = Some []"
  show "map u_status (users (snd (update_object h st i dto other))) = map u_status (users st)"
    unfolding update_object_on_existing [OF assms]
    by (rule status_column_kept) (simp add: s truthy_def)
next
  assume pw: "up_password dto = Some []"
  show "update h st i dto = update h' st i dto"
    by (simp add: update_on_existing [OF assms] pw truthy_def)
  show "update h st i dto = update h st i (dto\<lparr>up_password := None\<rparr>)"
    by (simp add: update_on_existing [OF assms] pw truthy_def)
  show "map_option u_password (find_user (snd (update h st i dto)) i) = Some (u_password u)"
    unfolding update_on_existing [OF assms]
    by (rule row_keeps_password [OF assms]) (simp add: pw truthy_def)
next
  assume s: "up_status dto = Some []"
  show "update h st i dto = update h st i (dto\<lparr>up_status := None\<rparr>)"
    by (simp add: update_on_existing [OF assms] s truthy_def)
  show "map_option u_status (find_user (snd (update h st i dto)) i) = Some (u_status u)"
    unfolding update_on_existing [OF assms]
    by (rule row_keeps_status [OF assms]) (simp add: s truthy_def)
qed

theorem update_empty_password_keeps_hash_witness:
  "find_user ex_store ''u1'' = Some ex_ann
   \<and> update ex_hash ex_store ''u1'' (empty_dto\<lparr>up_password := Some [], up_status := Some []\<rparr>)
     = update (\<lambda>p n. p) ex_store ''u1'' (empty_dto\<lparr>up_password := Some [], up_status := Some []\<rparr>)
   \<and> map_option u_password
        (find_user (snd (update ex_hash ex_store ''u1''
                           (empty_dto\<lparr>up_password := Some [], up_status := Some []\<rparr>))) ''u1'')
     = Some ''$2a$10$321wp''
   \<and> map_option u_status
        (find_user (snd (update ex_hash ex_store ''u1''
                           (empty_dto\<lparr>up_password := Some [], up_status := Some []\<rparr>))) ''u1'')
     = Some ''ACTIVE''"
proof -
  have ann: "find_user ex_store ''u1'' = Some ex_ann"
    by (simp add: find_user_def ex_defs)
  have pw: "up_password (empty_dto\<lparr>up_password := Some [], up_status := Some []\<rparr>) = Some []"
    and s: "up_status (empty_dto\<lparr>up_password := Some [], up_status := Some []\<rparr>) = Some []"
    by simp_all
  have f: "u_password ex_ann = ''$2a$10$321wp''" "u_status ex_ann = ''ACTIVE''"
    by (simp_all add: ex_ann_def)
  show ?thesis
    using ann pw s
      update_empty_password_keeps_hash [OF ann, of
        "empty_dto\<lparr>up_password := Some [], up_status := Some []\<rparr>" ex_hash "\<lambda>p n. p",
        unfolded f]
    by blast
qed

section \<open>Status changes\<close>

lemma updateStatus_on_existing:
  assumes "find_user st i = Some u"
  shows "updateStatus st i status =
     (if status \<notin> set UserStatus then (Inl EnumValueRefused, st)
      else (Inr (select_user_flat
                   (st\<lparr>users := map (\<lambda>x. if u_id x = i then x\<lparr>u_status := status\<rparr> else x) (users st)\<rparr>)
                   (u\<lparr>u_status := status\<rparr>)),
            st\<lparr>users := map (\<lambda>x. if u_id x = i then x\<lparr>u_status := status\<rparr> else x) (users st)\<rparr>))"
proof -
  have same: "apply_update \<lparr>ud_name = None, ud_email = None, ud_role = None,
                 ud_status = Some status, ud_password = None, ud_set = None\<rparr>
              = (\<lambda>x. x\<lparr>u_status := status\<rparr>)"
    by (rule ext) (simp add: apply_update_def)
  show ?thesis
    using assms
    by (simp add: updateStatus_def prisma_user_update_unfold same Let_def list_ex_iff cong: if_cong)
qed

lemma find_user_after_status:
  "find_user (st\<lparr>users := map (\<lambda>x. if u_id x = i then x\<lparr>u_status := s\<rparr> else x) (users st)\<rparr>) j
   = map_option (\<lambda>x. if u_id x = i then x\<lparr>u_status := s\<rparr> else x) (find_user st j)"
  by (simp add: find_user_def find_after_rewrite)

lemma findOne_on_existing:
  "find_user st i = Some u \<Longrightarrow> findOne st i = (Inr (select_user st u), st)"
  by (simp add: findOne_def prisma_user_findUnique_def)

lemma assignedCourses_status [simp]:
  "assignedCourses (st\<lparr>users := us\<rparr>) (u\<lparr>u_status := s\<rparr>) = assignedCourses st u"
  by (simp add: assignedCourses_def)

text \<open>
  C7. For an existing user and a member \<open>s\<close> of the status enumeration, \<open>updateStatus\<close>
  succeeds, the stored row afterwards is the old row with status \<open>s\<close> (so name, email and
  role are as before), a following \<open>findOne\<close> shows status \<open>s\<close> and the same name, email
  and role as a \<open>findOne\<close> before the call, and the returned object has exactly the keys
  id, name, email, status, createdAt, role: no \<open>assignedCourses\<close>.
\<close>

theorem updateStatus_sets_status_only:
  assumes "find_user st i = Some u" and "s \<in> set UserStatus"
  shows "\<exists>j st' before after.
           updateStatus st i s = (Inr j, st')
         \<and> find_user st' i = Some (u\<lparr>u_status := s\<rparr>)
         \<and> findOne st i = (Inr before, st)
         \<and> findOne st' i = (Inr after, st')
         \<and> jfield ''status'' after = JStr s
         \<and> jfield ''name'' after = jfield ''name'' before
         \<and> jfield ''email'' after = jfield ''email'' before
         \<and> jfield ''role'' after = jfield ''role'' before
         \<and> jfield ''status'' j = JStr s
         \<and> jkeys j = [''id'', ''name'', ''email'', ''status'', ''createdAt'', ''role'']
         \<and> ''assignedCourses'' \<notin> set (jkeys j)"
proof -
  let ?st = "st\<lparr>users := map (\<lambda>x. if u_id x = i then x\<lparr>u_status := s\<rparr> else x) (users st)\<rparr>"
  let ?u = "u\<lparr>u_status := s\<rparr>"
  from assms(1) have id: "u_id u = i"
    by (simp add: find_user_SomeD)
  have run: "updateStatus st i s = (Inr (select_user_flat ?st ?u), ?st)"
    by (simp add: updateStatus_on_existing [OF assms(1)] assms(2))
  have row: "find_user ?st i = Some ?u"
    by (simp add: find_user_after_status assms(1) id)
  have before: "findOne st i = (Inr (select_user st u), st)"
    by (rule findOne_on_existing [OF assms(1)])
  have after: "findOne ?st i = (Inr (select_user ?st ?u), ?st)"
    by (rule findOne_on_existing [OF row])
  have fields: "jfield ''status'' (select_user ?st ?u) = JStr s"
    "jfield ''name'' (select_user ?st ?u) = jfield ''name'' (select_user st u)"
    "jfield ''email'' (select_user ?st ?u) = jfield ''email'' (select_user st u)"
    "jfield ''role'' (select_user ?st ?u) = jfield ''role'' (select_user st u)"
    by (simp_all add: select_user_eq)
  have shape: "jfield ''status'' (select_user_flat ?st ?u) = JStr s"
    "jkeys (select_user_flat ?st ?u) = [''id'', ''name'', ''email'', ''status'', ''createdAt'', ''role'']"
    by (simp_all add: select_user_flat_eq)
  have absent: "''assignedCourses'' \<notin> set (jkeys (select_user_flat ?st ?u))"
    by (simp add: shape(2))
  from run row before after fields shape absent show ?thesis
    by blast
qed

theorem updateStatus_sets_status_only_witness:
  "find_user ex_store ''u1'' = Some ex_ann \<and> ''BANNED'' \<in> set UserStatus
   \<and> (\<exists>j st' before after.
           updateStatus ex_store ''u1'' ''BANNED'' = (Inr j, st')
         \<and> find_user st' ''u1'' = Some (ex_ann\<lparr>u_status := ''BANNED''\<rparr>)
         \<and> findOne ex_store ''u1'' = (Inr before, ex_store)
         \<and> findOne st' ''u1'' = (Inr after, st')
         \<and> jfield ''status'' after = JStr ''BANNED''
         \<and> jfield ''name'' after = jfield ''name'' before
         \<and> jfield ''email'' after = jfield ''email'' before
         \<and> jfield ''role'' after = jfield ''role'' before
         \<and> jfield ''status'' j = JStr ''BANNED''
         \<and> jkeys j = [''id'', ''name'', ''email'', ''status'', ''createdAt'', ''role'']
         \<and> ''assignedCourses'' \<notin> set (jkeys j))"
proof -
  have ann: "find_user ex_store ''u1'' = Some ex_ann"
    by (simp add: find_user_def ex_defs)
  have member: "''BANNED'' \<in> set UserStatus"
    by (simp add: UserStatus_def)
  from ann member updateStatus_sets_status_only [OF ann member] show ?thesis
    by (intro conjI)
qed

section \<open>Fields that no operation writes\<close>








section \<open>Which status values are refused\<close>

lemma prisma_user_update_InrD:
  assumes "prisma_user_update st i d sel = (Inr j, st')" and "find_user st i = Some u"
  shows "st' = st\<lparr>users := map (\<lambda>x. if u_id x = i then apply_update d x else x) (users st)\<rparr>
       \<and> j = sel st' (apply_update d u)
       \<and> find_user st' i = Some (apply_update d u)"
proof -
  from assms(2) have id: "u_id u = i"
    by (simp add: find_user_SomeD)
  from assms have
    st': "st' = st\<lparr>users := map (\<lambda>x. if u_id x = i then apply_update d x else x) (users st)\<rparr>"
    and j: "j = sel st' (apply_update d u)"
    by (auto simp: prisma_user_update_unfold Let_def split: if_splits)
  have "find_user st' i = Some (apply_update d u)"
    unfolding st' by (simp add: find_user_after_update assms(2) id)
  with st' j show ?thesis
    by simp
qed

lemma prisma_user_update_plain:
  assumes "find_user st i = Some u" and "ud_email d = None" and "ud_set d = None"
    and "case ud_status d of Some s \<Rightarrow> s \<in> set UserStatus | None \<Rightarrow> True"
  shows "\<exists>j st'. prisma_user_update st i d sel = (Inr j, st')"
  using assms
  by (auto simp: prisma_user_update_unfold Let_def list_ex_iff split: option.splits)

lemma update_InrD:
  assumes "find_user st i = Some u" and "update h st i dto = (Inr j, st')"
  shows "\<exists>d. ud_name d = up_name dto \<and> ud_email d = up_email dto \<and> ud_role d = up_role dto
            \<and> ud_status d = (case up_status dto of
                               Some status \<Rightarrow> if truthy status then Some status else None
                             | None \<Rightarrow> None)
            \<and> ud_password d = (case up_password dto of
                                 Some p \<Rightarrow> if truthy p \<and> truthy (h p 10) then Some (h p 10) else None
                               | None \<Rightarrow> None)
            \<and> ud_set d = up_assignedCourseIds dto
            \<and> list_all (course_exists st) (case ud_set d of Some ids \<Rightarrow> ids | None \<Rightarrow> [])
            \<and> st' = st\<lparr>users := map (\<lambda>x. if u_id x = i then apply_update d x else x) (users st)\<rparr>
            \<and> j = select_user st' (apply_update d u)
            \<and> find_user st' i = Some (apply_update d u)"
proof -
  define d where "d =
       \<lparr>ud_name = up_name dto, ud_email = up_email dto, ud_role = up_role dto,
        ud_status = (case up_status dto of
                       Some status \<Rightarrow> if truthy status then Some status else None
                     | None \<Rightarrow> None),
        ud_password = (case up_password dto of
                         Some p \<Rightarrow> if truthy p \<and> truthy (h p 10) then Some (h p 10) else None
                       | None \<Rightarrow> None),
        ud_set = up_assignedCourseIds dto\<rparr>"
  have fields: "ud_name d = up_name dto" "ud_email d = up_email dto" "ud_role d = up_role dto"
    "ud_status d = (case up_status dto of
                      Some status \<Rightarrow> if truthy status then Some status else None
                    | None \<Rightarrow> None)"
    "ud_password d = (case up_password dto of
                        Some p \<Rightarrow> if truthy p \<and> truthy (h p 10) then Some (h p 10) else None
                      | None \<Rightarrow> None)"
    "ud_set d = up_assignedCourseIds dto"
    by (simp_all add: d_def)
  from assms have run: "prisma_user_update st i d select_user = (Inr j, st')"
    by (simp add: update_on_existing d_def)
  have ok: "list_all (course_exists st) (case ud_set d of Some ids \<Rightarrow> ids | None \<Rightarrow> [])"
  proof (rule ccontr)
    assume "\<not> ?thesis"
    then have "isl (fst (prisma_user_update st i d select_user))"
      by (simp add: prisma_user_update_unfold assms(1))
    with run show False
      by simp
  qed
  from prisma_user_update_InrD [OF run assms(1)] ok fields show ?thesis
    by blast
qed

text \<open>
  C4, as the code has it. The service does not compare the status with the enumeration
  itself: it hands the value to the store, whose status column has the enumeration type.
  For an existing user, \<open>updateStatus\<close> with a value outside the enumeration, and \<open>update\<close>
  with a non-empty value outside it, fail with the store's validation error and change
  nothing; with a member of the enumeration, \<open>updateStatus\<close> succeeds and every successful
  \<open>update\<close> stores it. An \<open>update\<close> whose status is the empty string is not refused: it
  behaves as if the status were absent, and the stored status stays. A non-empty value
  outside the enumeration is refused also when the input object has further keys.
\<close>

theorem status_outside_enumeration:
  assumes "find_user st i = Some u"
  shows "(s \<notin> set UserStatus \<longrightarrow> updateStatus st i s = (Inl EnumValueRefused, st))
       \<and> (s \<in> set UserStatus \<longrightarrow>
            \<not> isl (fst (updateStatus st i s))
            \<and> map_option u_status (find_user (snd (updateStatus st i s)) i) = Some s)
       \<and> (up_status dto = Some s \<and> s \<noteq> [] \<and> s \<notin> set UserStatus \<longrightarrow>
            update h st i dto = (Inl EnumValueRefused, st))
       \<and> (up_status dto = Some s \<and> s \<in> set UserStatus \<longrightarrow>
            (\<forall>j st'. update h st i dto = (Inr j, st') \<longrightarrow>
                     map_option u_status (find_user st' i) = Some s))
       \<and> (s \<in> set UserStatus \<longrightarrow>
            \<not> isl (fst (update h st i (empty_dto\<lparr>up_status := Some s\<rparr>))))
       \<and> (up_status dto = Some [] \<longrightarrow>
            update h st i dto = update h st i (dto\<lparr>up_status := None\<rparr>)
            \<and> map_option u_status (find_user (snd (update h st i dto)) i) = Some (u_status u))
       \<and> (up_status dto = Some s \<and> s \<noteq> [] \<and> s \<notin> set UserStatus \<longrightarrow>
            update_object h st i dto other = (Inl EnumValueRefused, st))"
proof (intro conjI impI allI)
  assume "up_status dto = Some s \<and> s \<noteq> [] \<and> s \<notin> set UserStatus"
  then show "update_object h st i dto other = (Inl EnumValueRefused, st)"
    by (simp add: update_object_on_existing [OF assms] prisma_user_update_rest_def truthy_def)
next
  assume "s \<notin> set UserStatus"
  then show "updateStatus st i s = (Inl EnumValueRefused, st)"
    by (simp add: updateStatus_on_existing [OF assms])
next
  assume member: "s \<in> set UserStatus"
  from assms have id: "u_id u = i"
    by (simp add: find_user_SomeD)
  show "\<not> isl (fst (updateStatus st i s))"
    by (simp add: updateStatus_on_existing [OF assms] member)
  show "map_option u_status (find_user (snd (updateStatus st i s)) i) = Some s"
    by (simp add: updateStatus_on_existing [OF assms] member find_user_after_status assms id)
  have "\<exists>j st'. update h st i (empty_dto\<lparr>up_status := Some s\<rparr>) = (Inr j, st')"
    unfolding update_on_existing [OF assms]
    by (rule prisma_user_update_plain [OF assms]) (simp_all add: empty_dto_def member)
  then show "\<not> isl (fst (update h st i (empty_dto\<lparr>up_status := Some s\<rparr>)))"
    by auto
next
  assume "up_status dto = Some s \<and> s \<noteq> [] \<and> s \<notin> set UserStatus"
  then show "update h st i dto = (Inl EnumValueRefused, st)"
    by (simp add: update_on_existing [OF assms] prisma_user_update_unfold truthy_def)
next
  fix j st'
  assume given: "up_status dto = Some s \<and> s \<in> set UserStatus"
    and run: "update h st i dto = (Inr j, st')"
  from given have "s \<noteq> []"
    by (auto simp: UserStatus_def)
  from update_InrD [OF assms run] obtain d
    where d: "ud_status d = (case up_status dto of
                               Some status \<Rightarrow> if truthy status then Some status else None
                             | None \<Rightarrow> None)"
      and row: "find_user st' i = Some (apply_update d u)"
    by blast
  from d given \<open>s \<noteq> []\<close> have "ud_status d = Some s"
    by (simp add: truthy_def)
  then have "u_status (apply_update d u) = s"
    by (simp add: apply_update_def)
  with row show "map_option u_status (find_user st' i) = Some s"
    by simp
next
  assume blank: "up_status dto = Some []"
  then show "update h st i dto = update h st i (dto\<lparr>up_status := None\<rparr>)"
    by (simp add: update_on_existing [OF assms] truthy_def)
  show "map_option u_status (find_user (snd (update h st i dto)) i) = Some (u_status u)"
    unfolding update_on_existing [OF assms]
    by (rule row_keeps_status [OF assms]) (simp add: blank truthy_def)
qed

theorem status_outside_enumeration_witness:
  "find_user ex_store ''u1'' = Some ex_ann
   \<and> ''FROZEN'' \<notin> set UserStatus
   \<and> updateStatus ex_store ''u1'' ''FROZEN'' = (Inl EnumValueRefused, ex_store)
   \<and> update ex_hash ex_store ''u1'' (empty_dto\<lparr>up_status := Some ''FROZEN''\<rparr>)
     = (Inl EnumValueRefused, ex_store)
   \<and> ''BANNED'' \<in> set UserStatus
   \<and> map_option u_status (find_user (snd (updateStatus ex_store ''u1'' ''BANNED'')) ''u1'')
     = Some ''BANNED''
   \<and> \<not> isl (fst (update ex_hash ex_store ''u1'' (empty_dto\<lparr>up_status := Some ''BANNED''\<rparr>)))
   \<and> map_option u_status
        (find_user (snd (update ex_hash ex_store ''u1'' (empty_dto\<lparr>up_status := Some ''BANNED''\<rparr>)))
           ''u1'')
     = Some ''BANNED''
   \<and> update ex_hash ex_store ''u1'' (empty_dto\<lparr>up_status := Some []\<rparr>)
     = update ex_hash ex_store ''u1'' (empty_dto\<lparr>up_status := Some [], up_status := None\<rparr>)"
proof -
  have ann: "find_user ex_store ''u1'' = Some ex_ann"
    by (simp add: find_user_def ex_defs)
  have out: "''FROZEN'' \<notin> set UserStatus" and member: "''BANNED'' \<in> set UserStatus"
    by (simp_all add: UserStatus_def)
  have given: "up_status (empty_dto\<lparr>up_status := Some ''FROZEN''\<rparr>) = Some ''FROZEN''"
    "''FROZEN'' \<noteq> []"
    "up_status (empty_dto\<lparr>up_status := Some ''BANNED''\<rparr>) = Some ''BANNED''"
    "up_status (empty_dto\<lparr>up_status := Some []\<rparr>) = Some []"
    by simp_all
  note frozen = status_outside_enumeration [OF ann, of "''FROZEN''"
      "empty_dto\<lparr>up_status := Some ''FROZEN''\<rparr>" ex_hash]
  note banned = status_outside_enumeration [OF ann, of "''BANNED''"
      "empty_dto\<lparr>up_status := Some ''BANNED''\<rparr>" ex_hash]
  note blank = status_outside_enumeration [OF ann, of "''BANNED''"
      "empty_dto\<lparr>up_status := Some []\<rparr>" ex_hash]
  let ?r = "update ex_hash ex_store ''u1'' (empty_dto\<lparr>up_status := Some ''BANNED''\<rparr>)"
  from banned member have ok: "\<not> isl (fst ?r)"
    by blast
  then obtain j where "fst ?r = Inr j"
    by (cases "fst ?r") simp_all
  then have run: "?r = (Inr j, snd ?r)"
    by (simp add: prod_eq_iff)
  from banned given(3) member run
  have stored: "map_option u_status (find_user (snd ?r) ''u1'') = Some ''BANNED''"
    by blast
  from frozen out given(1,2)
  have refused: "updateStatus ex_store ''u1'' ''FROZEN'' = (Inl EnumValueRefused, ex_store)"
    "update ex_hash ex_store ''u1'' (empty_dto\<lparr>up_status := Some ''FROZEN''\<rparr>)
     = (Inl EnumValueRefused, ex_store)"
    by blast+
  from banned member
  have replaced: "map_option u_status (find_user (snd (updateStatus ex_store ''u1'' ''BANNED'')) ''u1'')
     = Some ''BANNED''"
    by blast
  from blank given(4)
  have skipped: "update ex_hash ex_store ''u1'' (empty_dto\<lparr>up_status := Some []\<rparr>)
     = update ex_hash ex_store ''u1'' (empty_dto\<lparr>up_status := Some [], up_status := None\<rparr>)"
    by blast
  from ann out refused member replaced ok stored skipped show ?thesis
    by (intro conjI)
qed

text \<open>
  C4 as stated fails: the empty string is no member of the enumeration, yet \<open>update\<close>
  with that status succeeds on an existing user, returning the unchanged projection.
\<close>

theorem update_empty_status_accepted:
  "[] \<notin> set UserStatus
   \<and> find_user ex_store ''u1'' = Some ex_ann
   \<and> update ex_hash ex_store ''u1'' (empty_dto\<lparr>up_status := Some []\<rparr>)
     = (Inr (select_user ex_store ex_ann), ex_store)"
  by (simp add: UserStatus_def find_user_def update_unfold prisma_user_update_unfold truthy_def
      empty_dto_def apply_update_def Let_def ex_store_def ex_ann_def ex_bob_def)

section \<open>Replacing the course associations\<close>








section \<open>The course listing of a user\<close>

lemma orderBy_Asc_sorted: "sorted (map col (orderBy Asc col rows))"
  by simp

lemma orderBy_Desc_sorted: "sorted_wrt (\<lambda>a b. b \<le> a) (map col (orderBy Desc col rows))"
proof -
  have "sorted (map (\<lambda>r. - col r) (orderBy Desc col rows))"
    by simp
  then show ?thesis
    by (simp add: sorted_wrt_map)
qed

lemma orderBy_mset: "mset (orderBy d col rows) = mset rows"
  by (cases d) simp_all

lemma orders_of_lessons:
  "orders_of (jfield ''lessons'' (select_module m)) = map l_order (orderBy Asc l_order (m_lessons m))"
  by (simp add: orders_of_def select_module_eq select_lesson_eq comp_def)

lemma orders_of_modules:
  "orders_of (jfield ''modules'' (select_course_full c)) = map m_order (orderBy Asc m_order (c_modules c))"
  by (simp add: orders_of_def select_course_full_eq select_module_eq comp_def)

lemma modules_of_course:
  "jitems (jfield ''modules'' (select_course_full c)) = map select_module (orderBy Asc m_order (c_modules c))"
  by (simp add: select_course_full_eq)

lemma getUserCourses_on_existing:
  assumes "find_user st i = Some u"
  shows "getUserCourses st i
     = (Inr (JArr (map select_course_full (orderBy Desc c_createdAt (assignedCourses st u)))), st)"
  using assms
  by (simp only: getUserCourses_def prisma_user_findUnique_def find_unique.simps option.map
      option.case user_courses_field)

lemma orders_of_module_list: "orders_of (JArr (map select_module ms)) = map m_order ms"
  by (simp add: orders_of_def select_module_eq comp_def)

lemma orders_of_lesson_list: "orders_of (JArr (map select_lesson ls)) = map l_order ls"
  by (simp add: orders_of_def select_lesson_eq comp_def)

text \<open>
  C2. For an existing user, \<open>getUserCourses\<close> returns the projections of the user's
  associated courses (a rearrangement of them: none lost, none added) arranged by
  creation time, latest first. Every returned course is the object of its id, title and
  description with, under \<open>modules\<close>, the projections of a rearrangement of all its
  modules whose \<open>order\<close> values ascend; every returned module is the object of its id,
  title and order with, under \<open>lessons\<close>, the projections of a rearrangement of all its
  lessons whose \<open>order\<close> values ascend; every returned lesson is the object of its id,
  title, duration and order. The \<open>order\<close> values read back from the returned arrays are
  those ascending values.
\<close>

theorem getUserCourses_ordering:
  assumes "find_user st i = Some u"
  shows "\<exists>cs. getUserCourses st i = (Inr (JArr (map select_course_full cs)), st)
            \<and> mset cs = mset (assignedCourses st u)
            \<and> sorted_wrt (\<lambda>a b. b \<le> a) (map c_createdAt cs)
            \<and> (\<forall>c \<in> set cs. \<exists>ms.
                  select_course_full c
                  = JObj [(''id'', JStr (c_id c)), (''title'', JStr (c_title c)),
                          (''description'', JStr (c_description c)),
                          (''modules'', JArr (map select_module ms))]
                  \<and> mset ms = mset (c_modules c)
                  \<and> sorted (map m_order ms)
                  \<and> orders_of (jfield ''modules'' (select_course_full c)) = map m_order ms
                  \<and> (\<forall>m \<in> set ms. \<exists>ls.
                        select_module m
                        = JObj [(''id'', JStr (m_id m)), (''title'', JStr (m_title m)),
                                (''order'', JNum (m_order m)),
                                (''lessons'', JArr (map select_lesson ls))]
                        \<and> mset ls = mset (m_lessons m)
                        \<and> sorted (map l_order ls)
                        \<and> orders_of (jfield ''lessons'' (select_module m)) = map l_order ls
                        \<and> (\<forall>l \<in> set ls.
                              select_lesson l
                              = JObj [(''id'', JStr (l_id l)), (''title'', JStr (l_title l)),
                                      (''duration'', JNum (l_duration l)),
                                      (''order'', JNum (l_order l))])))
            \<and> (\<forall>course \<in> set (map select_course_full cs).
                  sorted (orders_of (jfield ''modules'' course))
                  \<and> (\<forall>module \<in> set (jitems (jfield ''modules'' course)).
                        sorted (orders_of (jfield ''lessons'' module))))"
proof -
  let ?cs = "orderBy Desc c_createdAt (assignedCourses st u)"
  have run: "getUserCourses st i = (Inr (JArr (map select_course_full ?cs)), st)"
    by (rule getUserCourses_on_existing [OF assms])
  have lessons: "\<exists>ls. select_module m
        = JObj [(''id'', JStr (m_id m)), (''title'', JStr (m_title m)),
                (''order'', JNum (m_order m)), (''lessons'', JArr (map select_lesson ls))]
      \<and> mset ls = mset (m_lessons m)
      \<and> sorted (map l_order ls)
      \<and> orders_of (jfield ''lessons'' (select_module m)) = map l_order ls
      \<and> (\<forall>l \<in> set ls.
            select_lesson l
            = JObj [(''id'', JStr (l_id l)), (''title'', JStr (l_title l)),
                    (''duration'', JNum (l_duration l)), (''order'', JNum (l_order l))])"
    for m
  proof (intro exI [of _ "orderBy Asc l_order (m_lessons m)"] conjI ballI)
    show "select_module m
        = JObj [(''id'', JStr (m_id m)), (''title'', JStr (m_title m)),
                (''order'', JNum (m_order m)),
                (''lessons'', JArr (map select_lesson (orderBy Asc l_order (m_lessons m))))]"
      by (rule select_module_eq)
    show "mset (orderBy Asc l_order (m_lessons m)) = mset (m_lessons m)"
      by (rule orderBy_mset)
    show "sorted (map l_order (orderBy Asc l_order (m_lessons m)))"
      by (rule orderBy_Asc_sorted)
    show "orders_of (jfield ''lessons'' (select_module m))
        = map l_order (orderBy Asc l_order (m_lessons m))"
      by (rule orders_of_lessons)
    show "select_lesson l
        = JObj [(''id'', JStr (l_id l)), (''title'', JStr (l_title l)),
                (''duration'', JNum (l_duration l)), (''order'', JNum (l_order l))]" for l
      by (rule select_lesson_eq)
  qed
  have modules: "\<exists>ms. select_course_full c
        = JObj [(''id'', JStr (c_id c)), (''title'', JStr (c_title c)),
                (''description'', JStr (c_description c)),
                (''modules'', JArr (map select_module ms))]
      \<and> mset ms = mset (c_modules c)
      \<and> sorted (map m_order ms)
      \<and> orders_of (jfield ''modules'' (select_course_full c)) = map m_order ms
      \<and> (\<forall>m \<in> set ms. \<exists>ls.
            select_module m
            = JObj [(''id'', JStr (m_id m)), (''title'', JStr (m_title m)),
                    (''order'', JNum (m_order m)), (''lessons'', JArr (map select_lesson ls))]
            \<and> mset ls = mset (m_lessons m)
            \<and> sorted (map l_order ls)
            \<and> orders_of (jfield ''lessons'' (select_module m)) = map l_order ls
            \<and> (\<forall>l \<in> set ls.
                  select_lesson l
                  = JObj [(''id'', JStr (l_id l)), (''title'', JStr (l_title l)),
                          (''duration'', JNum (l_duration l)), (''order'', JNum (l_order l))]))"
    for c
  proof (intro exI [of _ "orderBy Asc m_order (c_modules c)"] conjI ballI)
    show "select_course_full c
        = JObj [(''id'', JStr (c_id c)), (''title'', JStr (c_title c)),
                (''description'', JStr (c_description c)),
                (''modules'', JArr (map select_module (orderBy Asc m_order (c_modules c))))]"
      by (rule select_course_full_eq)
    show "mset (orderBy Asc m_order (c_modules c)) = mset (c_modules c)"
      by (rule orderBy_mset)
    show "sorted (map m_order (orderBy Asc m_order (c_modules c)))"
      by (rule orderBy_Asc_sorted)
    show "orders_of (jfield ''modules'' (select_course_full c))
        = map m_order (orderBy Asc m_order (c_modules c))"
      by (rule orders_of_modules)
    show "\<exists>ls. select_module m
        = JObj [(''id'', JStr (m_id m)), (''title'', JStr (m_title m)),
                (''order'', JNum (m_order m)), (''lessons'', JArr (map select_lesson ls))]
      \<and> mset ls = mset (m_lessons m)
      \<and> sorted (map l_order ls)
      \<and> orders_of (jfield ''lessons'' (select_module m)) = map l_order ls
      \<and> (\<forall>l \<in> set ls.
            select_lesson l
            = JObj [(''id'', JStr (l_id l)), (''title'', JStr (l_title l)),
                    (''duration'', JNum (l_duration l)), (''order'', JNum (l_order l))])" for m
      by (rule lessons)
  qed
  have inner: "sorted (orders_of (jfield ''modules'' course))
      \<and> (\<forall>module \<in> set (jitems (jfield ''modules'' course)).
            sorted (orders_of (jfield ''lessons'' module)))"
    if "course \<in> set (map select_course_full ?cs)" for course
  proof -
    from that obtain c where course: "course = select_course_full c"
      by auto
    have "sorted (orders_of (jfield ''modules'' course))"
      unfolding course orders_of_modules by (rule orderBy_Asc_sorted)
    moreover have "sorted (orders_of (jfield ''lessons'' module))"
      if "module \<in> set (jitems (jfield ''modules'' course))" for module
    proof -
      from that obtain m where "module = select_module m"
        unfolding course modules_of_course by auto
      then show ?thesis
        by (simp only: orders_of_lessons orderBy_Asc_sorted)
    qed
    ultimately show ?thesis
      by blast
  qed
  show ?thesis
  proof (intro exI [of _ ?cs] conjI ballI)
    show "getUserCourses st i = (Inr (JArr (map select_course_full ?cs)), st)"
      by (rule run)
    show "mset ?cs = mset (assignedCourses st u)"
      by (rule orderBy_mset)
    show "sorted_wrt (\<lambda>a b. b \<le> a) (map c_createdAt ?cs)"
      by (rule orderBy_Desc_sorted)
    show "\<exists>ms. select_course_full c
        = JObj [(''id'', JStr (c_id c)), (''title'', JStr (c_title c)),
                (''description'', JStr (c_description c)),
                (''modules'', JArr (map select_module ms))]
      \<and> mset ms = mset (c_modules c)
      \<and> sorted (map m_order ms)
      \<and> orders_of (jfield ''modules'' (select_course_full c)) = map m_order ms
      \<and> (\<forall>m \<in> set ms. \<exists>ls.
            select_module m
            = JObj [(''id'', JStr (m_id m)), (''title'', JStr (m_title m)),
                    (''order'', JNum (m_order m)), (''lessons'', JArr (map select_lesson ls))]
            \<and> mset ls = mset (m_lessons m)
            \<and> sorted (map l_order ls)
            \<and> orders_of (jfield ''lessons'' (select_module m)) = map l_order ls
            \<and> (\<forall>l \<in> set ls.
                  select_lesson l
                  = JObj [(''id'', JStr (l_id l)), (''title'', JStr (l_title l)),
                          (''duration'', JNum (l_duration l)), (''order'', JNum (l_order l))]))"
      for c
      by (rule modules)
    show "sorted (orders_of (jfield ''modules'' course))"
      if "course \<in> set (map select_course_full ?cs)" for course
      using inner [OF that] by (rule conjunct1)
    show "sorted (orders_of (jfield ''lessons'' module))"
      if "course \<in> set (map select_course_full ?cs)"
        and "module \<in> set (jitems (jfield ''modules'' course))" for course module
      using inner [OF that(1)] that(2) by blast
  qed
qed

theorem getUserCourses_ordering_witness:
  "find_user ex_store ''u1'' = Some ex_ann
   \<and> (\<exists>cs. getUserCourses ex_store ''u1'' = (Inr (JArr (map select_course_full cs)), ex_store)
            \<and> mset cs = mset (assignedCourses ex_store ex_ann)
            \<and> sorted_wrt (\<lambda>a b. b \<le> a) (map c_createdAt cs))
   \<and> getUserCourses ex_store ''u1''
     = (Inr (JArr
          [JObj [(''id'', JStr ''c2''), (''title'', JStr ''Logic''),
                 (''description'', JStr ''Proofs''), (''modules'', JArr [])],
           JObj [(''id'', JStr ''c1''), (''title'', JStr ''Algebra''),
                 (''description'', JStr ''Groups''),
                 (''modules'', JArr
                    [JObj [(''id'', JStr ''m1''), (''title'', JStr ''Groups''), (''order'', JNum 1),
                           (''lessons'', JArr
                              [JObj [(''id'', JStr ''l1''), (''title'', JStr ''Axioms''),
                                     (''duration'', JNum 10), (''order'', JNum 1)],
                               JObj [(''id'', JStr ''l2''), (''title'', JStr ''Cosets''),
                                     (''duration'', JNum 20), (''order'', JNum 2)]])],
                     JObj [(''id'', JStr ''m2''), (''title'', JStr ''Rings''), (''order'', JNum 2),
                           (''lessons'', JArr
                              [JObj [(''id'', JStr ''l3''), (''title'', JStr ''Ideals''),
                                     (''duration'', JNum 30), (''order'', JNum 1)]])]])]]),
        ex_store)
   \<and> map c_createdAt [ex_course2, ex_course1] = [200, 100]"
proof -
  have ann: "find_user ex_store ''u1'' = Some ex_ann"
    by (simp add: find_user_def ex_defs)
  have listed: "orderBy Desc c_createdAt (assignedCourses ex_store ex_ann) = [ex_course2, ex_course1]"
    by (simp add: assignedCourses_def ex_defs)
  have c2: "select_course_full ex_course2
      = JObj [(''id'', JStr ''c2''), (''title'', JStr ''Logic''),
              (''description'', JStr ''Proofs''), (''modules'', JArr [])]"
    by (simp add: select_course_full_eq ex_course2_def)
  have c1: "select_course_full ex_course1
      = JObj [(''id'', JStr ''c1''), (''title'', JStr ''Algebra''),
                 (''description'', JStr ''Groups''),
                 (''modules'', JArr
                    [JObj [(''id'', JStr ''m1''), (''title'', JStr ''Groups''), (''order'', JNum 1),
                           (''lessons'', JArr
                              [JObj [(''id'', JStr ''l1''), (''title'', JStr ''Axioms''),
                                     (''duration'', JNum 10), (''order'', JNum 1)],
                               JObj [(''id'', JStr ''l2''), (''title'', JStr ''Cosets''),
                                     (''duration'', JNum 20), (''order'', JNum 2)]])],
                     JObj [(''id'', JStr ''m2''), (''title'', JStr ''Rings''), (''order'', JNum 2),
                           (''lessons'', JArr
                              [JObj [(''id'', JStr ''l3''), (''title'', JStr ''Ideals''),
                                     (''duration'', JNum 30), (''order'', JNum 1)]])]])]"
    by (simp add: select_course_full_eq select_module_eq select_lesson_eq ex_course1_def)
  have direct: "getUserCourses ex_store ''u1''
     = (Inr (JArr [select_course_full ex_course2, select_course_full ex_course1]), ex_store)"
    by (simp only: getUserCourses_on_existing [OF ann] listed list.map)
  have times: "map c_createdAt [ex_course2, ex_course1] = [200, 100]"
    by (simp add: ex_course1_def ex_course2_def)
  from getUserCourses_ordering [OF ann]
  have outer: "\<exists>cs. getUserCourses ex_store ''u1'' = (Inr (JArr (map select_course_full cs)), ex_store)
            \<and> mset cs = mset (assignedCourses ex_store ex_ann)
            \<and> sorted_wrt (\<lambda>a b. b \<le> a) (map c_createdAt cs)"
    by (elim exE conjE) (rule exI, intro conjI, assumption+)
  from ann outer direct [unfolded c1 c2] times show ?thesis
    by (intro conjI)
qed

section \<open>Where the password hash is returned\<close>

lemma brief_hides_password: "\<not> mentions ''password'' (select_course_brief c)"
  by (simp add: select_course_brief_eq)

lemma user_hides_password: "\<not> mentions ''password'' (select_user st u)"
  by (simp add: select_user_eq list_ex_iff brief_hides_password)

lemma flat_hides_password: "\<not> mentions ''password'' (select_user_flat st u)"
  by (simp add: select_user_flat_eq)

lemma lesson_hides_password: "\<not> mentions ''password'' (select_lesson l)"
  by (simp add: select_lesson_eq)

lemma module_hides_password: "\<not> mentions ''password'' (select_module m)"
  by (simp add: select_module_eq list_ex_iff lesson_hides_password)

lemma course_hides_password: "\<not> mentions ''password'' (select_course_full c)"
  by (simp add: select_course_full_eq list_ex_iff module_hides_password)

lemma prisma_user_update_exposes:
  assumes "\<And>s u. \<not> mentions k (sel s u)"
  shows "\<not> exposes k (prisma_user_update st i d sel)"
  using assms
  by (simp add: exposes_def prisma_user_update_unfold Let_def split: option.splits)

lemma prisma_user_create_exposes:
  assumes "\<And>s u. \<not> mentions k (sel s u)"
  shows "\<not> exposes k (prisma_user_create st g d sel)"
  using assms
  by (simp add: exposes_def prisma_user_create_def Let_def)

lemma prisma_user_delete_exposes:
  assumes "\<And>s u. \<not> mentions k (sel s u)"
  shows "\<not> exposes k (prisma_user_delete st i sel)"
  using assms
  by (simp add: exposes_def prisma_user_delete_def split: option.splits)

text \<open>
  C3. No result of \<open>create\<close>, \<open>findAll\<close>, \<open>findOne\<close>, \<open>update\<close>, \<open>updateStatus\<close>,
  \<open>getUserCourses\<close> or \<open>remove\<close> contains a \<open>password\<close> key at any depth, for any store
  and any input, an \<open>update\<close> input with further keys included. \<open>findByEmail\<close> is the exception: when a user has the email, its result
  has the \<open>password\<close> key, holding the stored hash.
\<close>

theorem password_only_from_findByEmail:
  "\<not> exposes ''password'' (create h g st cdto)
   \<and> \<not> exposes ''password'' (findAll st)
   \<and> \<not> exposes ''password'' (findOne st i)
   \<and> \<not> exposes ''password'' (update h st i dto)
   \<and> \<not> exposes ''password'' (updateStatus st i status)
   \<and> \<not> exposes ''password'' (getUserCourses st i)
   \<and> \<not> exposes ''password'' (remove st i)
   \<and> (\<forall>u. find_user_by_email st e = Some u \<longrightarrow>
          exposes ''password'' (findByEmail st e)
          \<and> (\<exists>j. findByEmail st e = (Inr j, st) \<and> jfield ''password'' j = JStr (u_password u)))
   \<and> \<not> exposes ''password'' (update_object h st i dto other)"
proof (intro conjI allI impI)
  show "\<not> exposes ''password'' (create h g st cdto)"
    unfolding create_def Let_def
    by (rule prisma_user_create_exposes) (rule user_hides_password)
  show "\<not> exposes ''password'' (findAll st)"
    by (simp add: exposes_def findAll_def prisma_user_findMany_def list_ex_iff
        user_hides_password)
  show "\<not> exposes ''password'' (findOne st i)"
    by (simp add: exposes_def findOne_def prisma_user_findUnique_def user_hides_password
        split: option.splits)
  show "\<not> exposes ''password'' (update h st i dto)"
  proof (cases "find_user st i")
    case None
    then show ?thesis
      by (simp add: exposes_def update_unfold)
  next
    case (Some u)
    show ?thesis
      unfolding update_on_existing [OF Some]
      by (rule prisma_user_update_exposes) (rule user_hides_password)
  qed
  show "\<not> exposes ''password'' (updateStatus st i status)"
  proof (cases "find_user st i")
    case None
    then show ?thesis
      by (simp add: exposes_def updateStatus_def)
  next
    case (Some u)
    then have "updateStatus st i status
        = prisma_user_update st i
            \<lparr>ud_name = None, ud_email = None, ud_role = None, ud_status = Some status,
             ud_password = None, ud_set = None\<rparr> select_user_flat"
      by (simp add: updateStatus_def)
    then show ?thesis
      by (simp only: prisma_user_update_exposes [of "''password''" select_user_flat,
            OF flat_hides_password] not_False_eq_True)
  qed
  show "\<not> exposes ''password'' (getUserCourses st i)"
  proof (cases "find_user st i")
    case None
    then show ?thesis
      by (simp add: exposes_def getUserCourses_def prisma_user_findUnique_def)
  next
    case (Some u)
    show ?thesis
      by (simp add: getUserCourses_on_existing [OF Some] exposes_def list_ex_iff
          course_hides_password)
  qed
  show "\<not> exposes ''password'' (remove st i)"
  proof (cases "find_user st i")
    case None
    then show ?thesis
      by (simp add: exposes_def remove_def)
  next
    case (Some u)
    then have "remove st i = prisma_user_delete st i select_user_flat"
      by (simp add: remove_def)
    then show ?thesis
      by (simp only: prisma_user_delete_exposes [of "''password''" select_user_flat,
            OF flat_hides_password] not_False_eq_True)
  qed
next
  fix u
  assume hit: "find_user_by_email st e = Some u"
  then have run: "findByEmail st e = (Inr (select_user_auth st u), st)"
    by (simp add: findByEmail_def prisma_user_findUnique_def)
  show "exposes ''password'' (findByEmail st e)"
    by (simp add: run exposes_def select_user_auth_eq)
  have "jfield ''password'' (select_user_auth st u) = JStr (u_password u)"
    by (simp add: select_user_auth_eq)
  with run show "\<exists>j. findByEmail st e = (Inr j, st) \<and> jfield ''password'' j = JStr (u_password u)"
    by simp
next
  show "\<not> exposes ''password'' (update_object h st i dto other)"
  proof (cases "find_user st i")
    case None
    then show ?thesis
      by (simp add: exposes_def update_object_def)
  next
    case (Some u)
    have "\<not> exposes ''password'' (prisma_user_update_rest st i d other select_user)" for d
      by (simp add: exposes_def prisma_user_update_rest_def Let_def user_hides_password
          split: option.splits)
    with Some show ?thesis
      by (simp add: update_object_def Let_def)
  qed
qed

theorem password_only_from_findByEmail_witness:
  "find_user_by_email ex_store ''ann@x.com'' = Some ex_ann
   \<and> exposes ''password'' (findByEmail ex_store ''ann@x.com'')
   \<and> (\<exists>j. findByEmail ex_store ''ann@x.com'' = (Inr j, ex_store)
          \<and> jfield ''password'' j = JStr ''$2a$10$321wp'')
   \<and> \<not> exposes ''password'' (findOne ex_store ''u1'')
   \<and> \<not> exposes ''password'' (findAll ex_store)
   \<and> \<not> exposes ''password'' (getUserCourses ex_store ''u1'')"
proof -
  have ann: "find_user_by_email ex_store ''ann@x.com'' = Some ex_ann"
    by (simp add: find_user_by_email_def ex_defs)
  have pw: "u_password ex_ann = ''$2a$10$321wp''"
    by (simp add: ex_ann_def)
  note t = password_only_from_findByEmail [of ex_hash ex_generated ex_store ex_create_dto "''u1''" empty_dto
      "''ACTIVE''" "''ann@x.com''"]
  from t ann have "exposes ''password'' (findByEmail ex_store ''ann@x.com'')
      \<and> (\<exists>j. findByEmail ex_store ''ann@x.com'' = (Inr j, ex_store)
             \<and> jfield ''password'' j = JStr (u_password ex_ann))"
    by blast
  with ann t show ?thesis
    by (simp only: pw simp_thms)
qed

section \<open>Creating a user\<close>

lemma find_snoc:
  "find P (xs @ [y]) = (case find P xs of Some x \<Rightarrow> Some x | None \<Rightarrow> if P y then Some y else None)"
  by (induction xs) auto

lemma create_on_fresh:
  assumes fresh: "g_id g \<notin> u_id ` set (users st)"
    and free: "cr_email dto \<notin> u_email ` set (users st)"
    and known: "\<forall>ids. cr_assignedCourseIds dto = Some ids \<longrightarrow> set ids \<subseteq> c_id ` set (courses st)"
  shows "\<exists>u. create h g st dto = (Inr (select_user (st\<lparr>users := users st @ [u]\<rparr>) u),
                                   st\<lparr>users := users st @ [u]\<rparr>)
           \<and> u_id u = g_id g \<and> u_name u = cr_name dto \<and> u_email u = cr_email dto
           \<and> u_password u = h (cr_password dto) 10
           \<and> u_role u = (case cr_role dto of Some r \<Rightarrow> r | None \<Rightarrow> g_role g)
           \<and> u_status u = g_status g \<and> u_createdAt u = g_createdAt g
           \<and> set (u_assigned u) = set (case cr_assignedCourseIds dto of Some ids \<Rightarrow> ids | None \<Rightarrow> [])"
proof -
  define connect where "connect =
    (case cr_assignedCourseIds dto of
       Some ids \<Rightarrow> if length ids \<noteq> 0 then Some ids else None
     | None \<Rightarrow> None)"
  define u where "u =
    \<lparr>u_id = g_id g, u_name = cr_name dto, u_email = cr_email dto,
     u_password = h (cr_password dto) 10,
     u_role = (case cr_role dto of Some r \<Rightarrow> r | None \<Rightarrow> g_role g),
     u_status = g_status g, u_createdAt = g_createdAt g,
     u_assigned = (case connect of Some ids \<Rightarrow> remdups ids | None \<Rightarrow> [])\<rparr>"
  from fresh have a: "find_user st (g_id g) = None"
    by (simp add: find_user_None_iff)
  from free have b: "find_user_by_email st (cr_email dto) = None"
    by (simp add: find_user_by_email_None_iff)
  from known have c: "list_all (course_exists st) (case connect of Some ids \<Rightarrow> ids | None \<Rightarrow> [])"
    by (auto simp: connect_def list_all_iff course_exists_def list_ex_iff split: option.splits)
  have run: "create h g st dto = (Inr (select_user (st\<lparr>users := users st @ [u]\<rparr>) u),
                                  st\<lparr>users := users st @ [u]\<rparr>)"
    using c
    by (simp add: create_def prisma_user_create_def a b Let_def connect_def [symmetric]
        u_def [symmetric])
  have assigned: "set (u_assigned u)
      = set (case cr_assignedCourseIds dto of Some ids \<Rightarrow> ids | None \<Rightarrow> [])"
    by (simp add: u_def connect_def split: option.splits)
  have "u_id u = g_id g" "u_name u = cr_name dto" "u_email u = cr_email dto"
    "u_password u = h (cr_password dto) 10"
    "u_role u = (case cr_role dto of Some r \<Rightarrow> r | None \<Rightarrow> g_role g)"
    "u_status u = g_status g" "u_createdAt u = g_createdAt g"
    by (simp_all add: u_def)
  with run assigned show ?thesis
    by blast
qed

text \<open>
  C6. For a creation input whose email no user has and whose course ids all exist (with
  an id from the store that no user has yet), \<open>create\<close> succeeds and adds one row whose
  password column is the result of the hash function on the given password with work
  factor 10, hence not the plaintext for a hash function that does not return its
  input. The returned object has exactly the keys id, name, email, status, createdAt,
  role and assignedCourses, each associated course has exactly the keys id and title,
  no \<open>password\<close> key occurs in it, its name and email are the input's, and a following
  \<open>findOne\<close> of the new id returns the same object.
\<close>

theorem create_hashes_and_projects:
  assumes "g_id g \<notin> u_id ` set (users st)"
    and "cr_email dto \<notin> u_email ` set (users st)"
    and "\<forall>ids. cr_assignedCourseIds dto = Some ids \<longrightarrow> set ids \<subseteq> c_id ` set (courses st)"
  shows "\<exists>j st' u. create h g st dto = (Inr j, st')
           \<and> users st' = users st @ [u] \<and> courses st' = courses st
           \<and> u_password u = h (cr_password dto) 10
           \<and> (h (cr_password dto) 10 \<noteq> cr_password dto \<longrightarrow> u_password u \<noteq> cr_password dto)
           \<and> \<not> mentions ''password'' j
           \<and> jkeys j = [''id'', ''name'', ''email'', ''status'', ''createdAt'', ''role'',
                         ''assignedCourses'']
           \<and> (\<forall>c \<in> set (jitems (jfield ''assignedCourses'' j)). jkeys c = [''id'', ''title''])
           \<and> jfield ''assignedCourses'' j
             = JArr (map select_course_brief
                       (filter (\<lambda>c. c_id c \<in> set (case cr_assignedCourseIds dto of
                                                      Some ids \<Rightarrow> ids | None \<Rightarrow> []))
                          (courses st)))
           \<and> jfield ''id'' j = JStr (g_id g)
           \<and> jfield ''name'' j = JStr (cr_name dto)
           \<and> jfield ''email'' j = JStr (cr_email dto)
           \<and> jfield ''status'' j = JStr (g_status g)
           \<and> jfield ''createdAt'' j = JNum (g_createdAt g)
           \<and> jfield ''role'' j = JStr (case cr_role dto of Some r \<Rightarrow> r | None \<Rightarrow> g_role g)
           \<and> findOne st' (g_id g) = (Inr j, st')"
proof -
  from create_on_fresh [OF assms, of h] obtain u
    where run: "create h g st dto = (Inr (select_user (st\<lparr>users := users st @ [u]\<rparr>) u),
                                     st\<lparr>users := users st @ [u]\<rparr>)"
      and row: "u_id u = g_id g" "u_name u = cr_name dto" "u_email u = cr_email dto"
        "u_role u = (case cr_role dto of Some r \<Rightarrow> r | None \<Rightarrow> g_role g)"
        "u_status u = g_status g" "u_createdAt u = g_createdAt g"
      and hashed: "u_password u = h (cr_password dto) 10"
      and assigned: "set (u_assigned u)
          = set (case cr_assignedCourseIds dto of Some ids \<Rightarrow> ids | None \<Rightarrow> [])"
    by blast
  let ?st = "st\<lparr>users := users st @ [u]\<rparr>"
  let ?j = "select_user ?st u"
  have shape: "jkeys ?j = [''id'', ''name'', ''email'', ''status'', ''createdAt'', ''role'',
                           ''assignedCourses'']"
    by (simp add: select_user_eq)
  have listed: "jfield ''assignedCourses'' ?j
      = JArr (map select_course_brief
                (filter (\<lambda>c. c_id c \<in> set (case cr_assignedCourseIds dto of
                                               Some ids \<Rightarrow> ids | None \<Rightarrow> []))
                   (courses st)))"
    by (simp add: select_user_eq assignedCourses_def assigned)
  have each: "\<forall>c \<in> set (jitems (jfield ''assignedCourses'' ?j)). jkeys c = [''id'', ''title'']"
    unfolding listed by (auto simp: select_course_brief_eq)
  have fields: "jfield ''id'' ?j = JStr (g_id g)" "jfield ''name'' ?j = JStr (cr_name dto)"
    "jfield ''email'' ?j = JStr (cr_email dto)" "jfield ''status'' ?j = JStr (g_status g)"
    "jfield ''createdAt'' ?j = JNum (g_createdAt g)"
    "jfield ''role'' ?j = JStr (case cr_role dto of Some r \<Rightarrow> r | None \<Rightarrow> g_role g)"
    by (simp_all add: select_user_eq row)
  from assms(1) have "find_user st (g_id g) = None"
    by (simp add: find_user_None_iff)
  then have "find_user ?st (g_id g) = Some u"
    by (simp add: find_user_def find_snoc row(1))
  then have again: "findOne ?st (g_id g) = (Inr ?j, ?st)"
    by (rule findOne_on_existing)
  have stored: "users ?st = users st @ [u]" "courses ?st = courses st"
    by simp_all
  have differs: "h (cr_password dto) 10 \<noteq> cr_password dto \<longrightarrow> u_password u \<noteq> cr_password dto"
    by (simp add: hashed)
  show ?thesis
    apply (rule exI [of _ ?j], rule exI [of _ ?st], rule exI [of _ u])
    apply (intro conjI)
                   apply (rule run stored hashed differs user_hides_password shape each listed
        fields again)+
    done
qed

theorem create_hashes_and_projects_witness:
  "g_id ex_generated \<notin> u_id ` set (users ex_store)
   \<and> cr_email ex_create_dto \<notin> u_email ` set (users ex_store)
   \<and> cr_assignedCourseIds ex_create_dto = Some [''c1'']
   \<and> set [''c1''] \<subseteq> c_id ` set (courses ex_store)
   \<and> ex_hash ''pw123'' 10 \<noteq> ''pw123''
   \<and> (\<exists>j st' u. create ex_hash ex_generated ex_store ex_create_dto = (Inr j, st')
          \<and> users st' = [ex_ann, ex_bob, u]
          \<and> u_password u = ''$2a$10$321wp'' \<and> u_password u \<noteq> ''pw123''
          \<and> jkeys j = [''id'', ''name'', ''email'', ''status'', ''createdAt'', ''role'',
                        ''assignedCourses'']
          \<and> jfield ''assignedCourses'' j = JArr [JObj [(''id'', JStr ''c1''), (''title'', JStr ''Algebra'')]]
          \<and> jfield ''name'' j = JStr ''Cy''
          \<and> findOne st' ''u3'' = (Inr j, st'))"
proof -
  have fresh: "g_id ex_generated \<notin> u_id ` set (users ex_store)"
    by (simp add: ex_generated_def ex_defs)
  have free: "cr_email ex_create_dto \<notin> u_email ` set (users ex_store)"
    by (simp add: ex_create_dto_def ex_defs)
  have known: "\<forall>ids. cr_assignedCourseIds ex_create_dto = Some ids
      \<longrightarrow> set ids \<subseteq> c_id ` set (courses ex_store)"
    by (simp add: ex_create_dto_def ex_defs)
  have given: "cr_assignedCourseIds ex_create_dto = Some [''c1'']"
    and there: "set [''c1''] \<subseteq> c_id ` set (courses ex_store)"
    by (simp_all add: ex_create_dto_def ex_defs)
  have one_way: "ex_hash ''pw123'' 10 \<noteq> ''pw123''"
    by (simp add: ex_hash_def)
  have concrete: "users ex_store = [ex_ann, ex_bob]" "g_id ex_generated = ''u3''"
    "cr_name ex_create_dto = ''Cy''" "cr_password ex_create_dto = ''pw123''"
    "ex_hash ''pw123'' 10 = ''$2a$10$321wp''"
    "map select_course_brief
       (filter (\<lambda>c. c_id c \<in> set (case cr_assignedCourseIds ex_create_dto of
                                      Some ids \<Rightarrow> ids | None \<Rightarrow> []))
          (courses ex_store))
     = [JObj [(''id'', JStr ''c1''), (''title'', JStr ''Algebra'')]]"
    by (simp_all add: ex_generated_def ex_create_dto_def ex_hash_def ex_defs
        select_course_brief_eq)
  from create_hashes_and_projects [OF fresh free known, of ex_hash]
  obtain j st' u where got: "create ex_hash ex_generated ex_store ex_create_dto = (Inr j, st')"
    "users st' = users ex_store @ [u]"
    "u_password u = ex_hash (cr_password ex_create_dto) 10"
    "ex_hash (cr_password ex_create_dto) 10 \<noteq> cr_password ex_create_dto
       \<longrightarrow> u_password u \<noteq> cr_password ex_create_dto"
    "jkeys j = [''id'', ''name'', ''email'', ''status'', ''createdAt'', ''role'',
                ''assignedCourses'']"
    "jfield ''assignedCourses'' j
       = JArr (map select_course_brief
                 (filter (\<lambda>c. c_id c \<in> set (case cr_assignedCourseIds ex_create_dto of
                                                Some ids \<Rightarrow> ids | None \<Rightarrow> []))
                    (courses ex_store)))"
    "jfield ''name'' j = JStr (cr_name ex_create_dto)"
    "findOne st' (g_id ex_generated) = (Inr j, st')"
    by (elim exE conjE)
  note got' = got [unfolded concrete]
  from got'(4) one_way [unfolded concrete] have differs: "u_password u \<noteq> ''pw123''"
    by (rule mp)
  from got'(1,2,3) differs got'(5,6,7,8)
  have inner: "create ex_hash ex_generated ex_store ex_create_dto = (Inr j, st')
          \<and> users st' = [ex_ann, ex_bob, u]
          \<and> u_password u = ''$2a$10$321wp'' \<and> u_password u \<noteq> ''pw123''
          \<and> jkeys j = [''id'', ''name'', ''email'', ''status'', ''createdAt'', ''role'',
                        ''assignedCourses'']
          \<and> jfield ''assignedCourses'' j = JArr [JObj [(''id'', JStr ''c1''), (''title'', JStr ''Algebra'')]]
          \<and> jfield ''name'' j = JStr ''Cy''
          \<and> findOne st' ''u3'' = (Inr j, st')"
    by (simp only: append.simps simp_thms)
  then have "\<exists>j st' u. create ex_hash ex_generated ex_store ex_create_dto = (Inr j, st')
          \<and> users st' = [ex_ann, ex_bob, u]
          \<and> u_password u = ''$2a$10$321wp'' \<and> u_password u \<noteq> ''pw123''
          \<and> jkeys j = [''id'', ''name'', ''email'', ''status'', ''createdAt'', ''role'',
                        ''assignedCourses'']
          \<and> jfield ''assignedCourses'' j = JArr [JObj [(''id'', JStr ''c1''), (''title'', JStr ''Algebra'')]]
          \<and> jfield ''name'' j = JStr ''Cy''
          \<and> findOne st' ''u3'' = (Inr j, st')"
    by (intro exI)
  with fresh free given there one_way show ?thesis
    by (intro conjI)
qed

end
